theory Spec2Isabelle
  imports Complex_Main "HOL-Library.Sublist" "HOL-Library.Code_Target_Nat"
begin

section \<open>JavaScript values\<close>

text \<open>
  The program handles values of TypeScript type \<open>unknown\<close>: whatever \<open>JSON.parse\<close> gave,
  a bare string, or \<open>undefined\<close>. An object is the list of its own enumerable properties in
  enumeration order, with distinct keys. A number is the real it stands for, or the
  number \<open>Infinity\<close>, which \<open>Number\<close> gives a numeral beyond the range of a double; the
  program makes neither \<open>NaN\<close> nor a negative infinity. A string is held as the bytes of
  its UTF-8 encoding, so that an ASCII character is one byte.
\<close>

datatype jsval =
    JUndefined
  | JNull
  | JBool bool
  | JNum real
  | JInfinity
  | JStr string
  | JArr "jsval list"
  | JObj "(string \<times> jsval) list"

datatype error =
    Error string
  | KreaApiError string int "string option"
  | TypeError string

text \<open>
  \<open>Error m\<close> is \<open>new Error(m)\<close>. \<open>KreaApiError m status body\<close> is the class of that name;
  its body is undefined (\<open>None\<close>) when \<open>stringifyUnknown\<close> is handed \<open>undefined\<close>.
  \<open>TypeError\<close> is what JavaScript itself throws: a property read on \<open>undefined\<close> or
  \<open>null\<close>, or a \<open>fetch\<close> that could not reach the server.
\<close>

definition typeof :: "jsval \<Rightarrow> string" where
  "typeof v =
     (case v of
        JUndefined \<Rightarrow> ''undefined''
      | JNull \<Rightarrow> ''object''
      | JBool _ \<Rightarrow> ''boolean''
      | JNum _ \<Rightarrow> ''number''
      | JInfinity \<Rightarrow> ''number''
      | JStr _ \<Rightarrow> ''string''
      | JArr _ \<Rightarrow> ''object''
      | JObj _ \<Rightarrow> ''object'')"

definition truthy :: "jsval \<Rightarrow> bool" where
  "truthy v =
     (case v of
        JUndefined \<Rightarrow> False
      | JNull \<Rightarrow> False
      | JBool b \<Rightarrow> b
      | JNum n \<Rightarrow> n \<noteq> 0
      | JInfinity \<Rightarrow> True
      | JStr s \<Rightarrow> s \<noteq> []
      | JArr _ \<Rightarrow> True
      | JObj _ \<Rightarrow> True)"

subsection \<open>Decimal numerals\<close>

definition isDigit :: "char \<Rightarrow> bool" where
  "isDigit c = (c \<in> set ''0123456789'')"

definition digit_val :: "char \<Rightarrow> nat" where
  "digit_val c =
     (case map_of (zip ''0123456789'' [0, 1, 2, 3, 4, 5, 6, 7, 8, 9]) c of
        Some d \<Rightarrow> d
      | None \<Rightarrow> 0)"

definition nat_of_digits :: "string \<Rightarrow> nat" where
  "nat_of_digits ds = foldl (\<lambda>n c. 10 * n + digit_val c) 0 ds"

text \<open>\<open>nat_of_digits\<close> is the natural number a string of decimal digits denotes.\<close>

fun bit_length :: "nat \<Rightarrow> nat" where
  "bit_length n = (if n = 0 then 0 else Suc (bit_length (n div 2)))"

declare bit_length.simps [simp del]

definition nearest_double :: "nat \<Rightarrow> nat option" where
  "nearest_double n =
     (let e = bit_length n - 53;
          q = n div 2 ^ e;
          r = n mod 2 ^ e;
          up = (2 ^ e < 2 * r \<or> (2 * r = 2 ^ e \<and> odd q));
          d = (if up then q + 1 else q) * 2 ^ e
      in if d < 2 ^ 1024 then Some d else None)"

text \<open>
  A JavaScript number is an IEEE 754 double: 53 significant bits, and an exponent that
  keeps a finite value below \<open>2^1024\<close>. \<open>nearest_double n\<close> is the double nearest to the
  natural number \<open>n\<close>, the one with an even significand when two are equally near, and
  \<open>None\<close> when that rounding leaves the finite range. All but the leading 53 bits of \<open>n\<close>
  are rounded away: \<open>e\<close> is their number, \<open>q\<close> the leading bits, \<open>r\<close> the rest.
\<close>

definition Number_of_digits :: "string \<Rightarrow> jsval" where
  "Number_of_digits ds =
     (case nearest_double (nat_of_digits ds) of
        Some d \<Rightarrow> JNum (real d)
      | None \<Rightarrow> JInfinity)"

text \<open>
  \<open>Number_of_digits\<close> is \<open>Number(s)\<close> on a string of decimal digits: the double nearest to
  the number the digits denote, as Node rounds a numeral of any length, and \<open>Infinity\<close>
  beyond the doubles. It is exact up to \<open>2^53\<close>.
\<close>

definition digit_char :: "nat \<Rightarrow> char" where
  "digit_char d = ''0123456789'' ! (d mod 10)"

fun show_nat :: "nat \<Rightarrow> string" where
  "show_nat n = (if n < 10 then [digit_char n] else show_nat (n div 10) @ [digit_char n])"

declare show_nat.simps [simp del]

definition show_int :: "int \<Rightarrow> string" where
  "show_int i = (if i < 0 then CHR ''-'' # show_nat (nat (- i)) else show_nat (nat i))"

text \<open>\<open>show_int\<close> is the text a template literal gives an integer (below \<open>10^21\<close>).\<close>

definition template :: "string option \<Rightarrow> string" where
  "template s = (case s of None \<Rightarrow> ''undefined'' | Some t \<Rightarrow> t)"

text \<open>\<open>template\<close> is \<open>${x}\<close> for an \<open>x\<close> that is a string or undefined.\<close>

subsection \<open>Property reads\<close>

definition array_index :: "string \<Rightarrow> nat option" where
  "array_index key =
     (if key \<noteq> [] \<and> list_all isDigit key \<and> (key = ''0'' \<or> hd key \<noteq> CHR ''0'')
      then Some (nat_of_digits key) else None)"

definition js_get :: "jsval \<Rightarrow> string \<Rightarrow> error + jsval" where
  "js_get v key =
     (case v of
        JUndefined \<Rightarrow> Inl (TypeError ''Cannot read properties of undefined'')
      | JNull \<Rightarrow> Inl (TypeError ''Cannot read properties of null'')
      | JBool _ \<Rightarrow> Inr JUndefined
      | JNum _ \<Rightarrow> Inr JUndefined
      | JInfinity \<Rightarrow> Inr JUndefined
      | JStr s \<Rightarrow>
          Inr (if key = ''length'' then JNum (real (length s))
               else (case array_index key of
                       Some i \<Rightarrow> if i < length s then JStr [s ! i] else JUndefined
                     | None \<Rightarrow> JUndefined))
      | JArr items \<Rightarrow>
          Inr (if key = ''length'' then JNum (real (length items))
               else (case array_index key of
                       Some i \<Rightarrow> if i < length items then items ! i else JUndefined
                     | None \<Rightarrow> JUndefined))
      | JObj kvs \<Rightarrow>
          Inr (case map_of kvs key of Some x \<Rightarrow> x | None \<Rightarrow> JUndefined))"

text \<open>
  \<open>js_get v key\<close> is the read \<open>v[key]\<close> of an own property. The members every object
  inherits (\<open>constructor\<close>, \<open>toString\<close>, ...) are functions and have no \<open>jsval\<close>; the program
  reads the keys \<open>id\<close>, \<open>job_id\<close>, \<open>status\<close>, \<open>job\<close>, \<open>result\<close>, \<open>data\<close>, \<open>output\<close> and
  \<open>error\<close> only.
\<close>

definition obj_set :: "(string \<times> jsval) list \<Rightarrow> string \<Rightarrow> jsval \<Rightarrow> (string \<times> jsval) list" where
  "obj_set kvs key v =
     (if key \<in> fst ` set kvs then map (\<lambda>(k, x). if k = key then (k, v) else (k, x)) kvs
      else kvs @ [(key, v)])"

text \<open>\<open>obj_set\<close> is the assignment \<open>payload.key = v\<close>: a new key goes last.\<close>

definition Object_values :: "(string \<times> jsval) list \<Rightarrow> jsval list" where
  "Object_values kvs = map snd kvs"

subsection \<open>What the platform provides\<close>

text \<open>
  \<open>JSON.parse\<close> (\<open>None\<close> when it throws), \<open>JSON.stringify\<close> on a value other than
  \<open>undefined\<close>, the \<open>protocol\<close> of \<open>new URL(s)\<close> (\<open>None\<close> when the constructor throws) and
  \<open>encodeURIComponent\<close> belong to the JavaScript runtime, not to this repository. They are
  parameters of the model.
\<close>

record platform =
  JSON_parse :: "string \<Rightarrow> jsval option"
  JSON_stringify :: "jsval \<Rightarrow> string"
  URL_protocol :: "string \<Rightarrow> string option"
  encodeURIComponent :: "string \<Rightarrow> string"

definition white_space :: "string list" where
  "white_space =
     [[CHR 0x09], [CHR 0x0A], [CHR 0x0B], [CHR 0x0C], [CHR 0x0D], [CHR 0x20],
      [CHR 0xC2, CHR 0xA0],
      [CHR 0xE1, CHR 0x9A, CHR 0x80],
      [CHR 0xE2, CHR 0x80, CHR 0x80], [CHR 0xE2, CHR 0x80, CHR 0x81],
      [CHR 0xE2, CHR 0x80, CHR 0x82], [CHR 0xE2, CHR 0x80, CHR 0x83],
      [CHR 0xE2, CHR 0x80, CHR 0x84], [CHR 0xE2, CHR 0x80, CHR 0x85],
      [CHR 0xE2, CHR 0x80, CHR 0x86], [CHR 0xE2, CHR 0x80, CHR 0x87],
      [CHR 0xE2, CHR 0x80, CHR 0x88], [CHR 0xE2, CHR 0x80, CHR 0x89],
      [CHR 0xE2, CHR 0x80, CHR 0x8A],
      [CHR 0xE2, CHR 0x80, CHR 0xA8], [CHR 0xE2, CHR 0x80, CHR 0xA9],
      [CHR 0xE2, CHR 0x80, CHR 0xAF],
      [CHR 0xE2, CHR 0x81, CHR 0x9F],
      [CHR 0xE3, CHR 0x80, CHR 0x80],
      [CHR 0xEF, CHR 0xBB, CHR 0xBF]]"

text \<open>
  The characters \<open>String.prototype.trim\<close> strips, each as its UTF-8 bytes: the white space
  of ECMAScript (U+0009, U+000B, U+000C, U+FEFF and the space separators U+0020, U+00A0,
  U+1680, U+2000 to U+200A, U+202F, U+205F, U+3000) and its line terminators (U+000A,
  U+000D, U+2028, U+2029).
\<close>

lemma white_space_not_empty: "w \<in> set white_space \<Longrightarrow> w \<noteq> []"
  by (auto simp: white_space_def)

function trimStart :: "string \<Rightarrow> string" where
  "trimStart s =
     (case List.find (\<lambda>w. prefix w s) white_space of
        None \<Rightarrow> s
      | Some w \<Rightarrow> trimStart (drop (length w) s))"
  by pat_completeness auto
termination
proof (relation "measure length")
  fix s w
  assume "List.find (\<lambda>w. prefix w s) white_space = Some w"
  then have "w \<in> set white_space" "prefix w s"
    by (auto simp: find_Some_iff)
  then have "w \<noteq> []" "length w \<le> length s"
    by (auto simp: white_space_not_empty prefix_length_le)
  then show "(drop (length w) s, s) \<in> measure length"
    by (cases w) auto
qed simp

declare trimStart.simps [simp del]

function trimEnd :: "string \<Rightarrow> string" where
  "trimEnd s =
     (case List.find (\<lambda>w. suffix w s) white_space of
        None \<Rightarrow> s
      | Some w \<Rightarrow> trimEnd (take (length s - length w) s))"
  by pat_completeness auto
termination
proof (relation "measure length")
  fix s w
  assume "List.find (\<lambda>w. suffix w s) white_space = Some w"
  then have "w \<in> set white_space" "suffix w s"
    by (auto simp: find_Some_iff)
  then have "w \<noteq> []" "length w \<le> length s"
    by (auto simp: white_space_not_empty suffix_length_le)
  then show "(take (length s - length w) s, s) \<in> measure length"
    by (cases w) auto
qed simp

declare trimEnd.simps [simp del]

definition trim :: "string \<Rightarrow> string" where
  "trim s = trimEnd (trimStart s)"

definition toLowerCase :: "string \<Rightarrow> string" where
  "toLowerCase s =
     map (\<lambda>c. case map_of (zip ''ABCDEFGHIJKLMNOPQRSTUVWXYZ'' ''abcdefghijklmnopqrstuvwxyz'') c of
                 Some l \<Rightarrow> l
               | None \<Rightarrow> c) s"

text \<open>
  \<open>trim\<close> strips white space from both ends, a character at a time. \<open>toLowerCase\<close>
  changes the letters \<open>A\<close> to \<open>Z\<close> and leaves a letter outside ASCII as it is; the words
  the program compares a lowered status with are ASCII.
\<close>

section \<open>The world outside: network, clock, process environment\<close>

record http_request =
  url :: string
  http_method :: string
  headers :: "(string \<times> string) list"
  body :: "string option"

record http_response =
  status :: int
  bodyText :: string

definition ok :: "http_response \<Rightarrow> bool" where
  "ok response = (200 \<le> status response \<and> status response \<le> 299)"

text \<open>
  The environment answers the \<open>n\<close>-th request of a run (\<open>None\<close>: \<open>fetch\<close> rejects), takes
  \<open>latency n\<close> milliseconds for it, and lets the \<open>n\<close>-th sleep overrun by \<open>jitter n\<close>
  milliseconds. The clock that \<open>Date.now()\<close> reads never runs backwards, and a sleep of
  \<open>ms\<close> milliseconds moves it by \<open>ms\<close> at least.
\<close>

record environment =
  respond :: "nat \<Rightarrow> http_request \<Rightarrow> http_response option"
  latency :: "nat \<Rightarrow> nat"
  jitter :: "nat \<Rightarrow> nat"
  KREA_API_KEY :: "string option"
  KREA_API_BASE_URL :: "string option"

text \<open>The state of a run: the clock, every request sent so far, every sleep asked for so far.\<close>

record world =
  clock :: int
  sent :: "http_request list"
  slept :: "int list"

definition Date_now :: "world \<Rightarrow> int" where
  "Date_now w = clock w"

definition fetch :: "environment \<Rightarrow> http_request \<Rightarrow> world \<Rightarrow> http_response option \<times> world" where
  "fetch E req w =
     (respond E (length (sent w)) req,
      w\<lparr>clock := clock w + int (latency E (length (sent w))), sent := sent w @ [req]\<rparr>)"

definition sleep :: "environment \<Rightarrow> int \<Rightarrow> world \<Rightarrow> world" where
  "sleep E ms w =
     w\<lparr>clock := clock w + max ms 0 + int (jitter E (length (slept w))), slept := slept w @ [ms]\<rparr>"

section \<open>kreaClient.ts\<close>

definition DEFAULT_BASE_URL :: string where
  "DEFAULT_BASE_URL = ''https://api.krea.ai/v1''"

record KreaClient =
  baseUrl :: string
  apiKey :: string

definition endsWith_slash :: "string \<Rightarrow> bool" where
  "endsWith_slash s = (s \<noteq> [] \<and> last s = CHR ''/'')"

definition new_KreaClient :: "string \<Rightarrow> string option \<Rightarrow> KreaClient" where
  "new_KreaClient key base =
     (let b = (case base of None \<Rightarrow> DEFAULT_BASE_URL | Some u \<Rightarrow> u)
      in \<lparr>baseUrl = (if endsWith_slash b then butlast b else b), apiKey = key\<rparr>)"

definition fromEnv :: "environment \<Rightarrow> error + KreaClient" where
  "fromEnv E =
     (case KREA_API_KEY E of
        None \<Rightarrow> Inl (Error ''KREA_API_KEY is not set.'')
      | Some key \<Rightarrow>
          if key = [] then Inl (Error ''KREA_API_KEY is not set.'')
          else Inr (new_KreaClient key
                      (Some (case KREA_API_BASE_URL E of None \<Rightarrow> DEFAULT_BASE_URL | Some u \<Rightarrow> u))))"

definition stringifyUnknown :: "platform \<Rightarrow> jsval \<Rightarrow> string option" where
  "stringifyUnknown P v =
     (case v of
        JStr s \<Rightarrow> Some s
      | JUndefined \<Rightarrow> None
      | _ \<Rightarrow> Some (JSON_stringify P v))"

text \<open>
  \<open>JSON.stringify(undefined)\<close> is \<open>undefined\<close>. The \<open>catch\<close> of \<open>stringifyUnknown\<close> is for
  a cyclic value or a BigInt, which no \<open>jsval\<close> is.
\<close>

definition request_of :: "KreaClient \<Rightarrow> string \<Rightarrow> string \<Rightarrow> string option \<Rightarrow> http_request" where
  "request_of c path meth payload =
     \<lparr>url = baseUrl c @ path,
      http_method = meth,
      headers = [(''Authorization'', ''Bearer '' @ apiKey c), (''Content-Type'', ''application/json'')],
      body = payload\<rparr>"

definition parse_body :: "platform \<Rightarrow> string \<Rightarrow> jsval" where
  "parse_body P text =
     (if length (trim text) > 0
      then (case JSON_parse P text of Some v \<Rightarrow> v | None \<Rightarrow> JStr text)
      else JUndefined)"

definition request ::
  "platform \<Rightarrow> environment \<Rightarrow> KreaClient \<Rightarrow> string \<Rightarrow> string \<Rightarrow> string option \<Rightarrow> world
   \<Rightarrow> (error + jsval) \<times> world" where
  "request P E c path meth payload w =
     (case fetch E (request_of c path meth payload) w of
        (None, w1) \<Rightarrow> (Inl (TypeError ''fetch failed''), w1)
      | (Some response, w1) \<Rightarrow>
          let jsonBody = parse_body P (bodyText response) in
          if \<not> ok response
          then (Inl (KreaApiError (''Krea API error '' @ show_int (status response))
                       (status response) (stringifyUnknown P jsonBody)), w1)
          else (Inr jsonBody, w1))"

definition generateImage ::
  "platform \<Rightarrow> environment \<Rightarrow> KreaClient \<Rightarrow> string \<Rightarrow> (string \<times> jsval) list \<Rightarrow> world
   \<Rightarrow> (error + jsval) \<times> world" where
  "generateImage P E c endpoint payload w =
     request P E c endpoint ''POST'' (Some (JSON_stringify P (JObj payload))) w"

definition getJob ::
  "platform \<Rightarrow> environment \<Rightarrow> KreaClient \<Rightarrow> string \<Rightarrow> world \<Rightarrow> (error + jsval) \<times> world" where
  "getJob P E c jobId w =
     request P E c (''/jobs/'' @ encodeURIComponent P jobId) ''GET'' None w"

definition normalizeStatus :: "jsval \<Rightarrow> string" where
  "normalizeStatus st = (case st of JStr s \<Rightarrow> toLowerCase s | _ \<Rightarrow> ''unknown'')"

definition isTerminalStatus :: "string \<Rightarrow> bool" where
  "isTerminalStatus st = (st = ''completed'' \<or> st = ''failed'' \<or> st = ''cancelled'')"

definition looksLikeUrl :: "platform \<Rightarrow> string \<Rightarrow> bool" where
  "looksLikeUrl P v =
     (case URL_protocol P v of
        None \<Rightarrow> False
      | Some protocol \<Rightarrow> protocol = ''http:'' \<or> protocol = ''https:'')"

definition set_add :: "string list \<Rightarrow> string \<Rightarrow> string list" where
  "set_add found s = (if s \<in> set found then found else found @ [s])"

text \<open>\<open>set_add\<close> is \<open>Set.add\<close>: a \<open>Set\<close> keeps insertion order and no duplicate.\<close>

definition stack_weight :: "jsval list \<Rightarrow> nat" where
  "stack_weight stack = sum_list (map (\<lambda>v. Suc (size v)) stack)"

lemma stack_weight_pop:
  "stack \<noteq> [] \<Longrightarrow> stack_weight stack = stack_weight (butlast stack) + Suc (size (last stack))"
  by (induction stack) (auto simp: stack_weight_def)

lemma stack_weight_append: "stack_weight (xs @ ys) = stack_weight xs + stack_weight ys"
  by (simp add: stack_weight_def)

lemma stack_weight_items: "stack_weight items \<le> size (JArr items)"
  by (induction items) (auto simp: stack_weight_def)

lemma stack_weight_values: "stack_weight (Object_values kvs) \<le> size (JObj kvs)"
  by (induction kvs) (auto simp: stack_weight_def Object_values_def)

lemma weight_pop_leaf: "stack \<noteq> [] \<Longrightarrow> stack_weight (butlast stack) < stack_weight stack"
  by (simp add: stack_weight_pop)

lemma weight_pop_array:
  "stack \<noteq> [] \<Longrightarrow> JArr items = last stack \<Longrightarrow>
   stack_weight (butlast stack @ items) < stack_weight stack"
  using stack_weight_pop [of stack] stack_weight_items [of items]
  by (simp add: stack_weight_append)

lemma weight_pop_object:
  "stack \<noteq> [] \<Longrightarrow> JObj kvs = last stack \<Longrightarrow>
   stack_weight (butlast stack @ Object_values kvs) < stack_weight stack"
  using stack_weight_pop [of stack] stack_weight_values [of kvs]
  by (simp add: stack_weight_append)

text \<open>
  The loop of \<open>extractHttpUrls\<close>: \<open>stack.pop()\<close> takes the last element, \<open>stack.push\<close>
  appends.
\<close>

function extract_loop :: "platform \<Rightarrow> string list \<Rightarrow> jsval list \<Rightarrow> string list" where
  "extract_loop P found stack =
     (if stack = [] then found
      else
        let current = last stack; stack = butlast stack in
        (case current of
           JStr s \<Rightarrow> extract_loop P (if looksLikeUrl P s then set_add found s else found) stack
         | JArr items \<Rightarrow> extract_loop P found (stack @ items)
         | JObj kvs \<Rightarrow> extract_loop P found (stack @ Object_values kvs)
         | _ \<Rightarrow> extract_loop P found stack))"
  by pat_completeness auto
termination
  by (relation "measure (\<lambda>(P, found, stack). stack_weight stack)")
     (auto simp: weight_pop_leaf weight_pop_array weight_pop_object)

declare extract_loop.simps [simp del]

definition extractHttpUrls :: "platform \<Rightarrow> jsval \<Rightarrow> string list" where
  "extractHttpUrls P v = extract_loop P [] [v]"

section \<open>models.ts\<close>

text \<open>
  A \<open>RequiredField\<close> is one of the strings \<open>prompt\<close>, \<open>width\<close>, \<open>height\<close>,
  \<open>referenceImages\<close>, \<open>imageUrl\<close>.
\<close>

type_synonym RequiredField = string

record ModelDefinition =
  title :: string
  endpoint :: string
  requiredFields :: "RequiredField list"
  fixedPayload :: "(string \<times> jsval) list option"
  defaultWidth :: "int option"
  defaultHeight :: "int option"
  notes_text :: "string option"

datatype ModelKey =
    flux_1_dev | flux_kontext_max | nano_banana_pro | nano_banana | flux_1_1_pro
  | flux_1_1_pro_ultra | ideogram_2a | ideogram_3 | imagen_3 | imagen_4 | imagen_4_fast
  | imagen_4_ultra | runway_gen_4_image | chatgpt_image_1 | seedream_3 | seedream_4
  | seededit_3 | qwen_image | zimage

definition plain_model :: "string \<Rightarrow> string \<Rightarrow> string option \<Rightarrow> ModelDefinition" where
  "plain_model t e n =
     \<lparr>title = t, endpoint = e, requiredFields = [''prompt''], fixedPayload = None,
      defaultWidth = None, defaultHeight = None, notes_text = n\<rparr>"

definition sized_model :: "string \<Rightarrow> string \<Rightarrow> ModelDefinition" where
  "sized_model t e =
     \<lparr>title = t, endpoint = e, requiredFields = [''prompt'', ''width'', ''height''], fixedPayload = None,
      defaultWidth = Some 1024, defaultHeight = Some 1024, notes_text = None\<rparr>"

text \<open>
  The catalog. \<open>plain_model\<close> is an entry that requires the prompt only, \<open>sized_model\<close>
  one that requires \<open>width\<close> and \<open>height\<close> and defaults both to 1024.
\<close>

fun KREA_IMAGE_MODELS :: "ModelKey \<Rightarrow> ModelDefinition" where
  "KREA_IMAGE_MODELS flux_1_dev =
     plain_model ''BFL Flux 1 Dev'' ''/generate/image/bfl/flux-1-dev''
       (Some ''General-purpose text-to-image model.'')"
| "KREA_IMAGE_MODELS flux_kontext_max =
     plain_model ''BFL Flux 1 Kontext Dev'' ''/generate/image/bfl/flux-1-kontext-dev''
       (Some ''Uses the current Kontext endpoint from Krea OpenAPI.'')"
| "KREA_IMAGE_MODELS nano_banana_pro =
     plain_model ''Google Nano Banana Pro'' ''/generate/image/google/nano-banana-pro'' None"
| "KREA_IMAGE_MODELS nano_banana =
     plain_model ''Google Nano Banana'' ''/generate/image/google/nano-banana'' None"
| "KREA_IMAGE_MODELS flux_1_1_pro =
     sized_model ''BFL Flux 1.1 Pro'' ''/generate/image/bfl/flux-1.1-pro''"
| "KREA_IMAGE_MODELS flux_1_1_pro_ultra =
     plain_model ''BFL Flux 1.1 Pro Ultra'' ''/generate/image/bfl/flux-1.1-pro-ultra'' None"
| "KREA_IMAGE_MODELS ideogram_2a =
     plain_model ''Ideogram 2 Turbo'' ''/generate/image/ideogram/ideogram-2-turbo'' None"
| "KREA_IMAGE_MODELS ideogram_3 =
     plain_model ''Ideogram 3'' ''/generate/image/ideogram/ideogram-3''
       (Some ''Supports optional style and referenceImage.'')"
| "KREA_IMAGE_MODELS imagen_3 =
     plain_model ''Google Imagen 3'' ''/generate/image/google/imagen-3'' None"
| "KREA_IMAGE_MODELS imagen_4 =
     plain_model ''Google Imagen 4'' ''/generate/image/google/imagen-4'' None"
| "KREA_IMAGE_MODELS imagen_4_fast =
     plain_model ''Google Imagen 4 Fast'' ''/generate/image/google/imagen-4-fast'' None"
| "KREA_IMAGE_MODELS imagen_4_ultra =
     plain_model ''Google Imagen 4 Ultra'' ''/generate/image/google/imagen-4-ultra'' None"
| "KREA_IMAGE_MODELS runway_gen_4_image =
     (plain_model ''Runway Gen-4 Image'' ''/generate/image/runway/gen-4''
        (Some ''Requires one or more reference image URLs.''))
     \<lparr>requiredFields := [''prompt'', ''referenceImages'']\<rparr>"
| "KREA_IMAGE_MODELS chatgpt_image_1 =
     plain_model ''OpenAI GPT Image'' ''/generate/image/openai/gpt-image'' None"
| "KREA_IMAGE_MODELS seedream_3 =
     (plain_model ''Bytedance Seedream 3'' ''/generate/image/bytedance/seedream-3'' None)
     \<lparr>fixedPayload := Some [(''model'', JStr ''seedream-3'')]\<rparr>"
| "KREA_IMAGE_MODELS seedream_4 =
     sized_model ''Bytedance Seedream 4'' ''/generate/image/bytedance/seedream-4''"
| "KREA_IMAGE_MODELS seededit_3 =
     (plain_model ''Bytedance Seededit 3'' ''/generate/image/bytedance/seededit''
        (Some ''Image-to-image endpoint that requires image_url.''))
     \<lparr>requiredFields := [''prompt'', ''imageUrl'']\<rparr>"
| "KREA_IMAGE_MODELS qwen_image =
     plain_model ''Qwen Image'' ''/generate/image/qwen/2512'' None"
| "KREA_IMAGE_MODELS zimage =
     sized_model ''ZAI ZImage'' ''/generate/image/z-image/z-image''"

definition MODEL_KEYS :: "ModelKey list" where
  "MODEL_KEYS =
     [flux_1_dev, flux_kontext_max, nano_banana_pro, nano_banana, flux_1_1_pro,
      flux_1_1_pro_ultra, ideogram_2a, ideogram_3, imagen_3, imagen_4, imagen_4_fast,
      imagen_4_ultra, runway_gen_4_image, chatgpt_image_1, seedream_3, seedream_4,
      seededit_3, qwen_image, zimage]"

definition key_name :: "ModelKey \<Rightarrow> string" where
  "key_name k =
     (case k of
        flux_1_dev \<Rightarrow> ''flux_1_dev'' | flux_kontext_max \<Rightarrow> ''flux_kontext_max''
      | nano_banana_pro \<Rightarrow> ''nano_banana_pro'' | nano_banana \<Rightarrow> ''nano_banana''
      | flux_1_1_pro \<Rightarrow> ''flux_1_1_pro'' | flux_1_1_pro_ultra \<Rightarrow> ''flux_1_1_pro_ultra''
      | ideogram_2a \<Rightarrow> ''ideogram_2a'' | ideogram_3 \<Rightarrow> ''ideogram_3''
      | imagen_3 \<Rightarrow> ''imagen_3'' | imagen_4 \<Rightarrow> ''imagen_4''
      | imagen_4_fast \<Rightarrow> ''imagen_4_fast'' | imagen_4_ultra \<Rightarrow> ''imagen_4_ultra''
      | runway_gen_4_image \<Rightarrow> ''runway_gen_4_image'' | chatgpt_image_1 \<Rightarrow> ''chatgpt_image_1''
      | seedream_3 \<Rightarrow> ''seedream_3'' | seedream_4 \<Rightarrow> ''seedream_4''
      | seededit_3 \<Rightarrow> ''seededit_3'' | qwen_image \<Rightarrow> ''qwen_image''
      | zimage \<Rightarrow> ''zimage'')"

fun join :: "string \<Rightarrow> string list \<Rightarrow> string" where
  "join sep [] = []"
| "join sep [x] = x"
| "join sep (x # y # ys) = x @ sep @ join sep (y # ys)"

definition describeRequiredFields :: "RequiredField list \<Rightarrow> string" where
  "describeRequiredFields required =
     (if length required = 0 then ''none'' else join '', '' required)"

section \<open>index.ts: inputs\<close>

text \<open>
  The tool inputs, after the schema of each tool has checked them: a field the schema
  declares \<open>int()\<close> is an integer, an enumeration is a datatype, an optional field is an
  \<open>option\<close>. The fields of \<open>GenerateInput\<close> carry the prefix \<open>g_\<close>, since \<open>UpscaleInput\<close>
  has fields of the same names.
\<close>

record GenerateInput =
  g_model :: ModelKey
  g_prompt :: string
  g_width :: "int option"
  g_height :: "int option"
  g_seed :: "int option"
  g_batch_size :: "int option"
  g_guidance_scale :: "real option"
  g_num_inference_steps :: "int option"
  g_negative_prompt :: "string option"
  g_size :: "string option"
  g_style :: "string option"
  g_reference_image :: "string option"
  g_reference_images :: "string list option"
  g_image_url :: "string option"
  g_sync_mode :: "bool option"
  g_wait_for_completion :: "bool option"
  g_poll_interval_ms :: "int option"
  g_timeout_ms :: "int option"

datatype UpscaleMode = standard | generative | bloom

definition mode_name :: "UpscaleMode \<Rightarrow> string" where
  "mode_name m =
     (case m of standard \<Rightarrow> ''standard'' | generative \<Rightarrow> ''generative'' | bloom \<Rightarrow> ''bloom'')"

record UpscaleInput =
  mode :: "UpscaleMode option"
  image_url :: string
  width :: int
  height :: int
  model :: "string option"
  batch_size :: "int option"
  seed :: "int option"
  prompt :: "string option"
  output_format :: "string option"
  subject_detection :: "string option"
  face_enhancement :: "bool option"
  face_enhancement_creativity :: "real option"
  face_enhancement_strength :: "real option"
  crop_to_fill :: "bool option"
  upscaling_activated :: "bool option"
  image_scaling_factor :: "real option"
  sharpen :: "real option"
  denoise :: "real option"
  fix_compression :: "real option"
  strength :: "real option"
  creativity :: "int option"
  texture :: "int option"
  detail :: "real option"
  face_preservation :: "bool option"
  color_preservation :: "bool option"
  wait_for_completion :: "bool option"
  poll_interval_ms :: "int option"
  timeout_ms :: "int option"

definition DEFAULT_POLL_INTERVAL_MS :: int where
  "DEFAULT_POLL_INTERVAL_MS = 2000"

definition DEFAULT_TIMEOUT_MS :: int where
  "DEFAULT_TIMEOUT_MS = 180000"

definition UPSCALE_STANDARD_MODELS :: "string list" where
  "UPSCALE_STANDARD_MODELS =
     [''Standard V2'', ''Low Resolution V2'', ''CGI'', ''High Fidelity V2'', ''Text Refine'']"

definition UPSCALE_GENERATIVE_MODELS :: "string list" where
  "UPSCALE_GENERATIVE_MODELS = [''Redefine'', ''Recovery'', ''Recovery V2'', ''Reimagine'']"

type_synonym payload = "(string \<times> jsval) list"

definition JInt :: "int \<Rightarrow> jsval" where
  "JInt n = JNum (real_of_int n)"

section \<open>index.ts: reading a response\<close>

definition is_object :: "jsval \<Rightarrow> bool" where
  "is_object v = (truthy v \<and> typeof v = ''object'')"

text \<open>\<open>is_object v\<close> is the test \<open>v && typeof v === "object"\<close>; an array passes it.\<close>

definition pickJob :: "jsval \<Rightarrow> error + jsval" where
  "pickJob rawResponse =
     (if is_object rawResponse
      then (case js_get rawResponse ''job'' of
              Inl e \<Rightarrow> Inl e
            | Inr job \<Rightarrow> if is_object job then Inr job else Inr rawResponse)
      else Inr (JObj []))"

fun readUnknown :: "jsval \<Rightarrow> string list \<Rightarrow> error + jsval" where
  "readUnknown current [] = Inr current"
| "readUnknown current (key # path) =
     (if \<not> truthy current \<or> typeof current \<noteq> ''object'' then Inr JUndefined
      else (case js_get current key of
              Inl e \<Rightarrow> Inl e
            | Inr next_value \<Rightarrow> readUnknown next_value path))"

definition readString :: "jsval \<Rightarrow> string list \<Rightarrow> error + string option" where
  "readString obj path =
     (case readUnknown obj path of
        Inl e \<Rightarrow> Inl e
      | Inr v \<Rightarrow> Inr (case v of JStr s \<Rightarrow> Some s | _ \<Rightarrow> None))"

definition js_of_opt :: "string option \<Rightarrow> jsval" where
  "js_of_opt s = (case s of None \<Rightarrow> JUndefined | Some t \<Rightarrow> JStr t)"

definition asObject :: "jsval \<Rightarrow> jsval option" where
  "asObject v = (if is_object v then Some v else None)"

section \<open>index.ts: the generate builder\<close>

definition digits1 :: "string \<Rightarrow> bool" where
  "digits1 ds =
     (case ds of [] \<Rightarrow> False | c # cs \<Rightarrow> c \<in> set ''123456789'' \<and> list_all isDigit cs)"

text \<open>
  \<open>digits1\<close> is a match of \<open>[1-9][0-9]*\<close>. \<open>parseSize\<close> matches
  \<open>^([1-9][0-9]*)x([1-9][0-9]*)$\<close>: the first group is the longest run of digits at the
  start, an \<open>x\<close> follows, and the second group is all the rest.
\<close>

definition parseSize :: "string option \<Rightarrow> (jsval \<times> jsval) option" where
  "parseSize sz =
     (case sz of
        None \<Rightarrow> None
      | Some s \<Rightarrow>
          if s = [] then None
          else
            let w = takeWhile isDigit s; rest = dropWhile isDigit s in
            (case rest of
               [] \<Rightarrow> None
             | c # h \<Rightarrow>
                 if c = CHR ''x'' \<and> digits1 w \<and> digits1 h
                 then Some (Number_of_digits w, Number_of_digits h)
                 else None))"

definition missing_for :: "GenerateInput \<Rightarrow> ModelDefinition \<Rightarrow> RequiredField \<Rightarrow> string list" where
  "missing_for input m field =
     (if field = ''prompt'' then []
      else
        (if field = ''width'' \<and> g_width input = None \<and> defaultWidth m = None
         then [''width''] else [])
        @ (if field = ''height'' \<and> g_height input = None \<and> defaultHeight m = None
           then [''height''] else [])
        @ (if field = ''referenceImages'' \<and>
              (case g_reference_images input of None \<Rightarrow> True | Some xs \<Rightarrow> length xs = 0)
           then [''reference_images''] else [])
        @ (if field = ''imageUrl'' \<and>
              (case g_image_url input of None \<Rightarrow> True | Some u \<Rightarrow> u = [])
           then [''image_url''] else []))"

definition validateInputByModel :: "GenerateInput \<Rightarrow> ModelDefinition \<Rightarrow> error + unit" where
  "validateInputByModel input m =
     (let missing = concat (map (missing_for input m) (requiredFields m)) in
      if length missing > 0
      then Inl (Error (''Missing required fields for model '' @ key_name (g_model input) @ '': ''
                       @ join '', '' missing @ ''. '' @ ''Model requires: ''
                       @ describeRequiredFields (requiredFields m)))
      else Inr ())"

definition set_opt :: "'a option \<Rightarrow> string \<Rightarrow> ('a \<Rightarrow> jsval) \<Rightarrow> payload \<Rightarrow> payload" where
  "set_opt field key to_js p =
     (case field of None \<Rightarrow> p | Some v \<Rightarrow> obj_set p key (to_js v))"

text \<open>\<open>set_opt\<close> is \<open>if (input.field !== undefined) { payload.key = input.field; }\<close>.\<close>

definition resolve_dimension ::
  "int option \<Rightarrow> jsval option \<Rightarrow> bool \<Rightarrow> int option \<Rightarrow> string \<Rightarrow> payload \<Rightarrow> payload" where
  "resolve_dimension explicit parsed required dflt key p =
     (case explicit of
        Some v \<Rightarrow> obj_set p key (JInt v)
      | None \<Rightarrow>
          (case parsed of
             Some v \<Rightarrow> obj_set p key v
           | None \<Rightarrow>
               (case dflt of
                  Some v \<Rightarrow> if required then obj_set p key (JInt v) else p
                | None \<Rightarrow> p)))"

text \<open>
  \<open>resolve_dimension\<close> is the chain \<open>if (input.width !== undefined) ... else if
  (size?.width !== undefined) ... else if (model.requiredFields.includes("width") &&
  model.defaultWidth !== undefined) ...\<close>, which \<open>buildPayload\<close> has once for \<open>width\<close> and
  once for \<open>height\<close>.
\<close>

definition buildPayload :: "GenerateInput \<Rightarrow> ModelDefinition \<Rightarrow> payload" where
  "buildPayload input m =
     (let p0 = obj_set (case fixedPayload m of None \<Rightarrow> [] | Some fp \<Rightarrow> fp)
                 ''prompt'' (JStr (g_prompt input));
          sz = parseSize (g_size input);
          qwen = (g_model input = qwen_image)
      in foldl (\<lambda>p step. step p) p0
           [resolve_dimension (g_width input) (map_option fst sz)
              (''width'' \<in> set (requiredFields m)) (defaultWidth m) ''width'',
            resolve_dimension (g_height input) (map_option snd sz)
              (''height'' \<in> set (requiredFields m)) (defaultHeight m) ''height'',
            set_opt (g_seed input) ''seed'' JInt,
            set_opt (g_batch_size input) ''batchSize'' JInt,
            set_opt (g_guidance_scale input)
              (if qwen then ''cfg_scale'' else ''guidance_scale_flux'') JNum,
            set_opt (g_num_inference_steps input)
              (if qwen then ''num_inference_steps'' else ''steps'') JInt,
            set_opt (if qwen then g_negative_prompt input else None) ''negative_prompt'' JStr,
            set_opt (g_style input) ''styles'' (\<lambda>s. JArr [JStr s]),
            set_opt (g_reference_image input) ''styleImages'' (\<lambda>s. JArr [JStr s]),
            set_opt (g_reference_images input) ''referenceImages'' (\<lambda>xs. JArr (map JStr xs)),
            set_opt (g_image_url input) ''imageUrl'' JStr])"

section \<open>index.ts: the upscale builder\<close>

definition resolveUpscaleModel :: "UpscaleMode \<Rightarrow> string option \<Rightarrow> error + string" where
  "resolveUpscaleModel md name =
     (if md = standard then
        (let selected = (case name of None \<Rightarrow> ''Standard V2'' | Some n \<Rightarrow> n) in
         if selected \<notin> set UPSCALE_STANDARD_MODELS
         then Inl (Error (''Invalid standard model \"'' @ selected @ ''\".''))
         else Inr selected)
      else if md = generative then
        (let selected = (case name of None \<Rightarrow> ''Redefine'' | Some n \<Rightarrow> n) in
         if selected \<notin> set UPSCALE_GENERATIVE_MODELS
         then Inl (Error (''Invalid generative model \"'' @ selected @ ''\".''))
         else Inr selected)
      else
        (let selected = (case name of None \<Rightarrow> ''Reimagine'' | Some n \<Rightarrow> n) in
         if selected \<noteq> ''Reimagine''
         then Inl (Error ''Bloom mode supports only model \"Reimagine\".'')
         else Inr selected))"

definition set_checked ::
  "'a option \<Rightarrow> ('a \<Rightarrow> string option) \<Rightarrow> string \<Rightarrow> ('a \<Rightarrow> jsval) \<Rightarrow> payload \<Rightarrow> error + payload" where
  "set_checked field check key to_js p =
     (case field of
        None \<Rightarrow> Inr p
      | Some v \<Rightarrow>
          (case check v of
             Some msg \<Rightarrow> Inl (Error msg)
           | None \<Rightarrow> Inr (obj_set p key (to_js v))))"

text \<open>
  \<open>set_checked\<close> is \<open>if (input.field !== undefined) { if (...) throw new Error(msg);
  payload.key = input.field; }\<close>, the check giving the message of the \<open>throw\<close> it reaches.
\<close>

definition no_check :: "'a \<Rightarrow> string option" where
  "no_check v = None"

definition reject_when :: "bool \<Rightarrow> string \<Rightarrow> 'a \<Rightarrow> string option" where
  "reject_when bad msg v = (if bad then Some msg else None)"

definition check_creativity :: "UpscaleMode \<Rightarrow> int \<Rightarrow> string option" where
  "check_creativity md c =
     (if md = standard then Some ''creativity is only supported in generative or bloom mode.''
      else if md = generative \<and> c > 6 then Some ''generative mode supports creativity from 1 to 6.''
      else None)"

fun run_steps :: "(payload \<Rightarrow> error + payload) list \<Rightarrow> payload \<Rightarrow> error + payload" where
  "run_steps [] p = Inr p"
| "run_steps (step # steps) p =
     (case step p of Inl e \<Rightarrow> Inl e | Inr p' \<Rightarrow> run_steps steps p')"

text \<open>Statements in sequence: the first \<open>throw\<close> ends the run.\<close>

record UpscaleRequest =
  req_mode :: UpscaleMode
  req_endpoint :: string
  normalizedModel :: string
  req_payload :: payload

definition upscale_endpoint :: "UpscaleMode \<Rightarrow> string" where
  "upscale_endpoint md =
     (if md = standard then ''/generate/enhance/topaz/standard-enhance''
      else if md = generative then ''/generate/enhance/topaz/generative-enhance''
      else ''/generate/enhance/topaz/bloom-enhance'')"

definition maxDimension :: "UpscaleMode \<Rightarrow> int" where
  "maxDimension md = (if md = bloom then 10000 else 32000)"

definition dimension_message :: "UpscaleMode \<Rightarrow> int \<Rightarrow> int \<Rightarrow> string" where
  "dimension_message md w h =
     ''Mode '' @ mode_name md @ '' supports up to '' @ show_int (maxDimension md) @ ''x''
     @ show_int (maxDimension md) @ ''. Received '' @ show_int w @ ''x'' @ show_int h @ ''.''"

definition upscale_steps :: "UpscaleMode \<Rightarrow> UpscaleInput \<Rightarrow> (payload \<Rightarrow> error + payload) list" where
  "upscale_steps md input =
     [set_checked (batch_size input) no_check ''batchSize'' JInt,
      set_checked (seed input) no_check ''seed'' JInt,
      set_checked (prompt input) no_check ''prompt'' JStr,
      set_checked (output_format input) no_check ''output_format'' JStr,
      set_checked (crop_to_fill input) no_check ''crop_to_fill'' JBool,
      set_checked (upscaling_activated input) no_check ''upscaling_activated'' JBool,
      set_checked (image_scaling_factor input) no_check ''image_scaling_factor'' JNum,
      set_checked (sharpen input)
        (reject_when (md = bloom) ''sharpen is not supported in bloom mode.'') ''sharpen'' JNum,
      set_checked (denoise input)
        (reject_when (md = bloom) ''denoise is not supported in bloom mode.'') ''denoise'' JNum,
      set_checked (subject_detection input)
        (reject_when (md = bloom) ''subject_detection is not supported in bloom mode.'')
        ''subject_detection'' JStr,
      set_checked (face_enhancement input)
        (reject_when (md = bloom) ''face_enhancement is not supported in bloom mode.'')
        ''face_enhancement'' JBool,
      set_checked (face_enhancement_creativity input)
        (reject_when (md = bloom) ''face_enhancement_creativity is not supported in bloom mode.'')
        ''face_enhancement_creativity'' JNum,
      set_checked (face_enhancement_strength input)
        (reject_when (md = bloom) ''face_enhancement_strength is not supported in bloom mode.'')
        ''face_enhancement_strength'' JNum,
      set_checked (strength input)
        (reject_when (md \<noteq> standard) ''strength is only supported in standard mode.'')
        ''strength'' JNum,
      set_checked (fix_compression input)
        (reject_when (md \<noteq> standard) ''fix_compression is only supported in standard mode.'')
        ''fix_compression'' JNum,
      set_checked (texture input)
        (reject_when (md \<noteq> generative) ''texture is only supported in generative mode.'')
        ''texture'' JInt,
      set_checked (detail input)
        (reject_when (md \<noteq> generative) ''detail is only supported in generative mode.'')
        ''detail'' JNum,
      set_checked (creativity input) (check_creativity md) ''creativity'' JInt,
      set_checked (face_preservation input)
        (reject_when (md \<noteq> bloom) ''face_preservation is only supported in bloom mode.'')
        ''face_preservation'' JBool,
      set_checked (color_preservation input)
        (reject_when (md \<noteq> bloom) ''color_preservation is only supported in bloom mode.'')
        ''color_preservation'' JBool]"

definition buildUpscaleRequest :: "UpscaleInput \<Rightarrow> error + UpscaleRequest" where
  "buildUpscaleRequest input =
     (let md = (case mode input of None \<Rightarrow> standard | Some m \<Rightarrow> m) in
      if width input > maxDimension md \<or> height input > maxDimension md
      then Inl (Error (dimension_message md (width input) (height input)))
      else
        (case resolveUpscaleModel md (model input) of
           Inl e \<Rightarrow> Inl e
         | Inr name \<Rightarrow>
             (case run_steps (upscale_steps md input)
                     [(''width'', JInt (width input)), (''height'', JInt (height input)),
                      (''image_url'', JStr (image_url input)), (''model'', JStr name)] of
                Inl e \<Rightarrow> Inl e
              | Inr p \<Rightarrow>
                  Inr \<lparr>req_mode = md, req_endpoint = upscale_endpoint md,
                       normalizedModel = name, req_payload = p\<rparr>)))"

section \<open>index.ts: the job-completion poller\<close>

record JobOutcome =
  job :: jsval
  rawResponse :: jsval

definition timeout_message :: "string \<Rightarrow> int \<Rightarrow> string" where
  "timeout_message jobId timeoutMs =
     ''Job '' @ jobId @ '' did not reach a terminal status within '' @ show_int timeoutMs @ ''ms.''"

text \<open>
  The loop \<open>while (Date.now() < deadline) { ... }\<close> and the \<open>throw\<close> after it. Nothing
  bounds the number of rounds but the clock, so the loop is a partial function: \<open>None\<close> is a
  run that never ends.
\<close>

partial_function (option) poll_loop ::
  "platform \<Rightarrow> environment \<Rightarrow> KreaClient \<Rightarrow> string \<Rightarrow> int \<Rightarrow> int \<Rightarrow> int \<Rightarrow> world
   \<Rightarrow> ((error + JobOutcome) \<times> world) option" where
  "poll_loop P E client jobId pollIntervalMs timeoutMs deadline w =
     (if Date_now w < deadline then
        (case getJob P E client jobId w of
           (Inl e, w1) \<Rightarrow> Some (Inl e, w1)
         | (Inr raw, w1) \<Rightarrow>
             (case pickJob raw of
                Inl e \<Rightarrow> Some (Inl e, w1)
              | Inr j \<Rightarrow>
                  (case readString j [''status''] of
                     Inl e \<Rightarrow> Some (Inl e, w1)
                   | Inr st \<Rightarrow>
                       if isTerminalStatus (normalizeStatus (js_of_opt st))
                       then Some (Inr \<lparr>job = j, rawResponse = raw\<rparr>, w1)
                       else poll_loop P E client jobId pollIntervalMs timeoutMs deadline
                              (sleep E pollIntervalMs w1))))
      else Some (Inl (Error (timeout_message jobId timeoutMs)), w))"

declare poll_loop.simps [code]

definition waitForJobCompletion ::
  "platform \<Rightarrow> environment \<Rightarrow> KreaClient \<Rightarrow> string \<Rightarrow> jsval \<Rightarrow> int \<Rightarrow> int \<Rightarrow> world
   \<Rightarrow> ((error + JobOutcome) \<times> world) option" where
  "waitForJobCompletion P E client jobId initial pollIntervalMs timeoutMs w =
     (let initialJob = (case asObject initial of Some v \<Rightarrow> v | None \<Rightarrow> JObj []) in
      case readString initialJob [''status''] of
        Inl e \<Rightarrow> Some (Inl e, w)
      | Inr st \<Rightarrow>
          if isTerminalStatus (normalizeStatus (js_of_opt st))
          then Some (Inr \<lparr>job = initialJob, rawResponse = JObj [(''job'', initialJob)]\<rparr>, w)
          else poll_loop P E client jobId pollIntervalMs timeoutMs (Date_now w + timeoutMs) w)"

section \<open>index.ts: the tools\<close>

record tool_result =
  content_text :: string
  structuredContent :: jsval

text \<open>
  The two copies of the generate flow differ in three conventions: the keys a job id is
  looked for under, the words of the error when none is found, and the path of the result.
\<close>

record conventions =
  id_keys :: "string list"
  missing_text :: string
  result_path :: "string list"

definition current_conventions :: conventions where
  "current_conventions =
     \<lparr>id_keys = [''id'', ''job_id''],
      missing_text = ''Krea response does not include job id. Response: '',
      result_path = [''result'']\<rparr>"


fun read_job_id :: "jsval \<Rightarrow> string list \<Rightarrow> error + string option" where
  "read_job_id createJob [] = Inr None"
| "read_job_id createJob [key] = readString createJob [key]"
| "read_job_id createJob (key # keys) =
     (case readString createJob [key] of
        Inl e \<Rightarrow> Inl e
      | Inr (Some s) \<Rightarrow> Inr (Some s)
      | Inr None \<Rightarrow> read_job_id createJob keys)"

text \<open>
  \<open>read_job_id createJob [''id'', ''job_id'']\<close> is \<open>readString(createJob, "id") ??
  readString(createJob, "job_id")\<close>, and \<open>read_job_id createJob [''id'']\<close> is
  \<open>readString(createJob, "id")\<close>.
\<close>

definition missing_job_id :: "platform \<Rightarrow> conventions \<Rightarrow> jsval \<Rightarrow> error" where
  "missing_job_id P cv createResponse =
     Error (missing_text cv @ template (stringifyUnknown P createResponse))"

definition summary_tail :: "platform \<Rightarrow> string list \<Rightarrow> jsval \<Rightarrow> string list" where
  "summary_tail P imageUrls err =
     (if length imageUrls > 0 then [''Images: '' @ join '', '' imageUrls] else [])
     @ (if truthy err then [''Error: '' @ template (stringifyUnknown P err)] else [])"

definition final_fields :: "payload \<Rightarrow> string \<Rightarrow> string \<Rightarrow> string list \<Rightarrow> jsval \<Rightarrow> JobOutcome \<Rightarrow> payload" where
  "final_fields p jobId st imageUrls err outcome =
     [(''payload_sent'', JObj p), (''job_id'', JStr jobId), (''status'', JStr st),
      (''image_urls'', JArr (map JStr imageUrls)), (''error'', err),
      (''final_job'', job outcome), (''final_job_response'', rawResponse outcome)]"

definition created_fields :: "payload \<Rightarrow> string \<Rightarrow> string \<Rightarrow> jsval \<Rightarrow> payload" where
  "created_fields p jobId st createResponse =
     [(''payload_sent'', JObj p), (''job_id'', JStr jobId), (''status'', JStr st),
      (''wait_for_completion'', JBool False), (''create_response'', createResponse)]"

text \<open>
  What a tool does with the answer to the creating request. Each tool has its own copy of
  this code; the copies differ in the conventions \<open>cv\<close>, in the fields \<open>label\<close> and the
  summary lines \<open>title_lines\<close> that name the model or the mode, and in the words
  \<open>created\<close> that open the text of a job not waited for.
\<close>

definition after_create ::
  "platform \<Rightarrow> environment \<Rightarrow> conventions \<Rightarrow> KreaClient \<Rightarrow> payload \<Rightarrow> string list \<Rightarrow> string \<Rightarrow>
   payload \<Rightarrow> bool \<Rightarrow> int \<Rightarrow> int \<Rightarrow> jsval \<Rightarrow> world
   \<Rightarrow> ((error + tool_result) \<times> world) option" where
  "after_create P E cv client label title_lines created p wait pollIntervalMs timeoutMs
     createResponse w =
     (case pickJob createResponse of
        Inl e \<Rightarrow> Some (Inl e, w)
      | Inr createJob \<Rightarrow>
     (case read_job_id createJob (id_keys cv) of
        Inl e \<Rightarrow> Some (Inl e, w)
      | Inr None \<Rightarrow> Some (Inl (missing_job_id P cv createResponse), w)
      | Inr (Some jobId) \<Rightarrow>
     if jobId = [] then Some (Inl (missing_job_id P cv createResponse), w)
     else if \<not> wait then
       (case readString createJob [''status''] of
          Inl e \<Rightarrow> Some (Inl e, w)
        | Inr st \<Rightarrow>
            let initialStatus = normalizeStatus (js_of_opt st) in
            Some (Inr \<lparr>content_text =
                         created @ jobId @ '' created with status: '' @ initialStatus @ ''.'',
                       structuredContent =
                         JObj (label @ created_fields p jobId initialStatus createResponse)\<rparr>, w))
     else
       (case waitForJobCompletion P E client jobId createJob pollIntervalMs timeoutMs w of
          None \<Rightarrow> None
        | Some (Inl e, w2) \<Rightarrow> Some (Inl e, w2)
        | Some (Inr outcome, w2) \<Rightarrow>
       (case readUnknown (job outcome) (result_path cv) of
          Inl e \<Rightarrow> Some (Inl e, w2)
        | Inr result \<Rightarrow>
       (case readString (job outcome) [''status''] of
          Inl e \<Rightarrow> Some (Inl e, w2)
        | Inr st \<Rightarrow>
       (case readUnknown (job outcome) [''error''] of
          Inl e \<Rightarrow> Some (Inl e, w2)
        | Inr err \<Rightarrow>
            let imageUrls = extractHttpUrls P result;
                final_status = normalizeStatus (js_of_opt st);
                summaryLines =
                  title_lines @ [''Job ID: '' @ jobId, ''Status: '' @ final_status]
                  @ summary_tail P imageUrls err
            in Some (Inr \<lparr>content_text = join [CHR 0x0A] summaryLines,
                          structuredContent =
                            JObj (label @ final_fields p jobId final_status imageUrls err outcome)\<rparr>,
                     w2)))))))"

definition krea_generate_image ::
  "platform \<Rightarrow> environment \<Rightarrow> GenerateInput \<Rightarrow> world \<Rightarrow> ((error + tool_result) \<times> world) option" where
  "krea_generate_image P E rawInput w =
     (let input = rawInput
            \<lparr>g_wait_for_completion :=
               Some (case g_wait_for_completion rawInput of None \<Rightarrow> True | Some b \<Rightarrow> b),
             g_poll_interval_ms :=
               Some (case g_poll_interval_ms rawInput of
                       None \<Rightarrow> DEFAULT_POLL_INTERVAL_MS | Some n \<Rightarrow> n),
             g_timeout_ms :=
               Some (case g_timeout_ms rawInput of None \<Rightarrow> DEFAULT_TIMEOUT_MS | Some n \<Rightarrow> n)\<rparr>;
          m = KREA_IMAGE_MODELS (g_model input)
      in
      case validateInputByModel input m of
        Inl e \<Rightarrow> Some (Inl e, w)
      | Inr _ \<Rightarrow>
     (let p = buildPayload input m in
      case fromEnv E of
        Inl e \<Rightarrow> Some (Inl e, w)
      | Inr client \<Rightarrow>
     (case generateImage P E client (endpoint m) p w of
        (Inl e, w1) \<Rightarrow> Some (Inl e, w1)
      | (Inr createResponse, w1) \<Rightarrow>
          after_create P E current_conventions client
            [(''model'', JStr (key_name (g_model input))), (''endpoint'', JStr (endpoint m))]
            [''Model: '' @ key_name (g_model input) @ '' ('' @ title m @ '')'',
             ''Endpoint: '' @ endpoint m]
            ''Job '' p
            (case g_wait_for_completion input of None \<Rightarrow> False | Some b \<Rightarrow> b)
            (case g_poll_interval_ms input of None \<Rightarrow> DEFAULT_POLL_INTERVAL_MS | Some n \<Rightarrow> n)
            (case g_timeout_ms input of None \<Rightarrow> DEFAULT_TIMEOUT_MS | Some n \<Rightarrow> n)
            createResponse w1)))"

definition krea_upscale_image ::
  "platform \<Rightarrow> environment \<Rightarrow> UpscaleInput \<Rightarrow> world \<Rightarrow> ((error + tool_result) \<times> world) option" where
  "krea_upscale_image P E rawInput w =
     (let input = rawInput
            \<lparr>mode := Some (case mode rawInput of None \<Rightarrow> standard | Some m \<Rightarrow> m),
             wait_for_completion :=
               Some (case wait_for_completion rawInput of None \<Rightarrow> True | Some b \<Rightarrow> b),
             poll_interval_ms :=
               Some (case poll_interval_ms rawInput of
                       None \<Rightarrow> DEFAULT_POLL_INTERVAL_MS | Some n \<Rightarrow> n),
             timeout_ms :=
               Some (case timeout_ms rawInput of None \<Rightarrow> DEFAULT_TIMEOUT_MS | Some n \<Rightarrow> n)\<rparr>
      in
      case buildUpscaleRequest input of
        Inl e \<Rightarrow> Some (Inl e, w)
      | Inr r \<Rightarrow>
     (case fromEnv E of
        Inl e \<Rightarrow> Some (Inl e, w)
      | Inr client \<Rightarrow>
     (case generateImage P E client (req_endpoint r) (req_payload r) w of
        (Inl e, w1) \<Rightarrow> Some (Inl e, w1)
      | (Inr createResponse, w1) \<Rightarrow>
          after_create P E current_conventions client
            [(''mode'', JStr (mode_name (req_mode r))), (''model'', JStr (normalizedModel r)),
             (''endpoint'', JStr (req_endpoint r))]
            [''Mode: '' @ mode_name (req_mode r), ''Model: '' @ normalizedModel r,
             ''Endpoint: '' @ req_endpoint r]
            ''Upscale job '' (req_payload r)
            (case wait_for_completion input of None \<Rightarrow> False | Some b \<Rightarrow> b)
            (case poll_interval_ms input of None \<Rightarrow> DEFAULT_POLL_INTERVAL_MS | Some n \<Rightarrow> n)
            (case timeout_ms input of None \<Rightarrow> DEFAULT_TIMEOUT_MS | Some n \<Rightarrow> n)
            createResponse w1)))"

section \<open>index.ts: the earlier copy of the generate flow\<close>

text \<open>
  The file \<open>index.ts\<close> of the sources holds an earlier copy of the generate tool, without
  the upscale tool. Its poller, \<open>validateInputByModel\<close>, \<open>pickJob\<close>, \<open>readUnknown\<close>,
  \<open>readString\<close> and \<open>asObject\<close> are those above, word for word. Its \<open>buildPayload\<close> has no
  \<open>parseSize\<close>, forwards \<open>size\<close> and \<open>sync_mode\<close>, renames nothing by model and knows no
  \<open>batch_size\<close>; its tool looks for the job id under \<open>id\<close> only and for the result under
  \<open>data.output\<close>. The sources also hold an earlier revision of the catalog, with other
  titles and endpoints and a fixed payload \<open>{model: "seededit-3"}\<close> for \<open>seededit_3\<close>; the
  required fields and the default dimensions are the same in both.
\<close>

definition dimension_or_default ::
  "int option \<Rightarrow> bool \<Rightarrow> int option \<Rightarrow> string \<Rightarrow> payload \<Rightarrow> payload" where
  "dimension_or_default explicit required dflt key p =
     (case explicit of
        Some v \<Rightarrow> obj_set p key (JInt v)
      | None \<Rightarrow>
          (case dflt of
             Some v \<Rightarrow> if required then obj_set p key (JInt v) else p
           | None \<Rightarrow> p))"

definition buildPayload_legacy :: "GenerateInput \<Rightarrow> ModelDefinition \<Rightarrow> payload" where
  "buildPayload_legacy input m =
     (let p0 = obj_set (case fixedPayload m of None \<Rightarrow> [] | Some fp \<Rightarrow> fp)
                 ''prompt'' (JStr (g_prompt input))
      in foldl (\<lambda>p step. step p) p0
           [dimension_or_default (g_width input) (''width'' \<in> set (requiredFields m))
              (defaultWidth m) ''width'',
            dimension_or_default (g_height input) (''height'' \<in> set (requiredFields m))
              (defaultHeight m) ''height'',
            set_opt (g_seed input) ''seed'' JInt,
            set_opt (g_guidance_scale input) ''guidance_scale'' JNum,
            set_opt (g_num_inference_steps input) ''num_inference_steps'' JInt,
            set_opt (g_negative_prompt input) ''negative_prompt'' JStr,
            set_opt (g_size input) ''size'' JStr,
            set_opt (g_style input) ''style'' JStr,
            set_opt (g_reference_image input) ''referenceImage'' JStr,
            set_opt (g_reference_images input) ''referenceImages'' (\<lambda>xs. JArr (map JStr xs)),
            set_opt (g_image_url input) ''imageUrl'' JStr,
            set_opt (g_sync_mode input) ''sync_mode'' JBool])"


section \<open>Notions the properties are stated with\<close>

text \<open>The string leaves of a value: every string in it, at any depth.\<close>

fun string_leaves :: "jsval \<Rightarrow> string set" where
  "string_leaves (JStr s) = {s}"
| "string_leaves (JArr items) = (\<Union>v \<in> set items. string_leaves v)"
| "string_leaves (JObj kvs) = (\<Union>v \<in> snd ` set kvs. string_leaves v)"
| "string_leaves _ = {}"

definition example_value :: jsval where
  "example_value =
     JObj [(''a'', JStr ''https://x.test/i.png''),
           (''b'', JArr [JStr ''not a url'', JStr ''http://y.test/j.png'']),
           (''c'', JObj [(''d'', JStr ''ftp://bad'')])]"

text \<open>
  A runtime for the examples: what \<open>JSON.parse\<close>, \<open>JSON.stringify\<close> and \<open>new URL\<close> answer
  on the texts and values the examples use, as tables. \<open>JSON.parse\<close> throws on the other
  texts of the examples (\<open>Bad Gateway\<close>, a single space). Outside its table the stand-in
  for \<open>JSON.stringify\<close> answers \<open>null\<close>; no example reads that answer.
\<close>

definition json_table :: "(string \<times> jsval) list" where
  "json_table =
     [(''{\"status\":\"running\"}'', JObj [(''status'', JStr ''running'')]),
      (''{\"status\":\"queued\"}'', JObj [(''status'', JStr ''queued'')]),
      (''{\"job_id\":\"j2\",\"status\":\"queued\"}'',
       JObj [(''job_id'', JStr ''j2''), (''status'', JStr ''queued'')]),
      (''{\"id\":\"j1\",\"status\":\"Completed\"}'',
       JObj [(''id'', JStr ''j1''), (''status'', JStr ''Completed'')])]"

definition test_platform :: platform where
  "test_platform =
     \<lparr>JSON_parse = map_of json_table,
      JSON_stringify =
        (\<lambda>v. case List.find (\<lambda>(s, x). x = v) json_table of
               Some (s, x) \<Rightarrow> s
             | None \<Rightarrow> ''null''),
      URL_protocol = map_of [(''https://x.test/i.png'', ''https:''),
                             (''http://y.test/j.png'', ''http:''),
                             (''ftp://bad'', ''ftp:'')],
      encodeURIComponent = (\<lambda>s. s)\<rparr>"

text \<open>The mode a request runs in: \<open>input.mode ?? "standard"\<close>.\<close>

definition effective_mode :: "UpscaleInput \<Rightarrow> UpscaleMode" where
  "effective_mode input = (case mode input of None \<Rightarrow> standard | Some m \<Rightarrow> m)"

text \<open>
  The table of mode-gated parameters, as the specification gives it: the parameter, whether
  the caller supplied it, the modes that allow it, and the extra constraint of the row
  (only \<open>creativity\<close> has one: at most 6 in generative mode). A row is violated when its
  parameter is supplied in a mode outside its list, or against its extra constraint.
\<close>

record gate =
  param :: string
  supplied :: bool
  allowed :: "UpscaleMode list"
  extra_violated :: bool
  extra_message :: string

definition plain_gate :: "string \<Rightarrow> bool \<Rightarrow> UpscaleMode list \<Rightarrow> gate" where
  "plain_gate name given modes =
     \<lparr>param = name, supplied = given, allowed = modes, extra_violated = False, extra_message = []\<rparr>"

definition gating_table :: "UpscaleInput \<Rightarrow> gate list" where
  "gating_table input =
     [plain_gate ''sharpen'' (sharpen input \<noteq> None) [standard, generative],
      plain_gate ''denoise'' (denoise input \<noteq> None) [standard, generative],
      plain_gate ''subject_detection'' (subject_detection input \<noteq> None) [standard, generative],
      plain_gate ''face_enhancement'' (face_enhancement input \<noteq> None) [standard, generative],
      plain_gate ''face_enhancement_creativity'' (face_enhancement_creativity input \<noteq> None)
        [standard, generative],
      plain_gate ''face_enhancement_strength'' (face_enhancement_strength input \<noteq> None)
        [standard, generative],
      plain_gate ''strength'' (strength input \<noteq> None) [standard],
      plain_gate ''fix_compression'' (fix_compression input \<noteq> None) [standard],
      plain_gate ''texture'' (texture input \<noteq> None) [generative],
      plain_gate ''detail'' (detail input \<noteq> None) [generative],
      \<lparr>param = ''creativity'', supplied = (creativity input \<noteq> None),
       allowed = [generative, bloom],
       extra_violated = (effective_mode input = generative
                         \<and> (case creativity input of None \<Rightarrow> False | Some c \<Rightarrow> c > 6)),
       extra_message = ''generative mode supports creativity from 1 to 6.''\<rparr>,
      plain_gate ''face_preservation'' (face_preservation input \<noteq> None) [bloom],
      plain_gate ''color_preservation'' (color_preservation input \<noteq> None) [bloom]]"

definition violated :: "UpscaleMode \<Rightarrow> gate \<Rightarrow> bool" where
  "violated md g = (supplied g \<and> (md \<notin> set (allowed g) \<or> extra_violated g))"

definition gate_message :: "UpscaleMode \<Rightarrow> gate \<Rightarrow> string" where
  "gate_message md g =
     (if md \<in> set (allowed g) then extra_message g
      else if allowed g = [standard, generative]
      then param g @ '' is not supported in bloom mode.''
      else param g @ '' is only supported in '' @ join '' or '' (map mode_name (allowed g))
           @ '' mode.'')"

text \<open>A step seen as the message of its check, if any, and the assignment it makes.\<close>

definition step_of :: "string option \<Rightarrow> (payload \<Rightarrow> payload) \<Rightarrow> payload \<Rightarrow> error + payload" where
  "step_of err upd p = (case err of Some m \<Rightarrow> Inl (Error m) | None \<Rightarrow> Inr (upd p))"

text \<open>
  The payload of a request that passes every check: the four base fields, then every
  supplied optional parameter under its key, in the order of the source.
\<close>

definition upscale_payload :: "UpscaleInput \<Rightarrow> string \<Rightarrow> payload" where
  "upscale_payload input name =
     foldl (\<lambda>p step. step p)
       [(''width'', JInt (width input)), (''height'', JInt (height input)),
        (''image_url'', JStr (image_url input)), (''model'', JStr name)]
       [set_opt (batch_size input) ''batchSize'' JInt,
        set_opt (seed input) ''seed'' JInt,
        set_opt (prompt input) ''prompt'' JStr,
        set_opt (output_format input) ''output_format'' JStr,
        set_opt (crop_to_fill input) ''crop_to_fill'' JBool,
        set_opt (upscaling_activated input) ''upscaling_activated'' JBool,
        set_opt (image_scaling_factor input) ''image_scaling_factor'' JNum,
        set_opt (sharpen input) ''sharpen'' JNum,
        set_opt (denoise input) ''denoise'' JNum,
        set_opt (subject_detection input) ''subject_detection'' JStr,
        set_opt (face_enhancement input) ''face_enhancement'' JBool,
        set_opt (face_enhancement_creativity input) ''face_enhancement_creativity'' JNum,
        set_opt (face_enhancement_strength input) ''face_enhancement_strength'' JNum,
        set_opt (strength input) ''strength'' JNum,
        set_opt (fix_compression input) ''fix_compression'' JNum,
        set_opt (texture input) ''texture'' JInt,
        set_opt (detail input) ''detail'' JNum,
        set_opt (creativity input) ''creativity'' JInt,
        set_opt (face_preservation input) ''face_preservation'' JBool,
        set_opt (color_preservation input) ''color_preservation'' JBool]"

text \<open>Inputs, a world and environments for the examples.\<close>

definition upscale_example :: UpscaleInput where
  "upscale_example =
     \<lparr>mode = None, image_url = ''https://x.test/i.png'', width = 1024, height = 1024,
      model = None, batch_size = None, seed = None, prompt = None, output_format = None,
      subject_detection = None, face_enhancement = None, face_enhancement_creativity = None,
      face_enhancement_strength = None, crop_to_fill = None, upscaling_activated = None,
      image_scaling_factor = None, sharpen = None, denoise = None, fix_compression = None,
      strength = None, creativity = None, texture = None, detail = None,
      face_preservation = None, color_preservation = None, wait_for_completion = None,
      poll_interval_ms = None, timeout_ms = None\<rparr>"

definition world0 :: world where
  "world0 = \<lparr>clock = 0, sent = [], slept = []\<rparr>"

definition scripted_env :: "(int \<times> string) list \<Rightarrow> environment" where
  "scripted_env replies =
     \<lparr>respond = (\<lambda>n req. if n < length replies
                           then Some \<lparr>status = fst (replies ! n), bodyText = snd (replies ! n)\<rparr>
                           else None),
      latency = (\<lambda>n. 5),
      jitter = (\<lambda>n. 0),
      KREA_API_KEY = Some ''key'',
      KREA_API_BASE_URL = None\<rparr>"

text \<open>
  The precedence of the specification: the explicit value, else the value parsed from the
  size string, else the default of the model when the field is required.
\<close>

definition resolved_dimension ::
  "int option \<Rightarrow> jsval option \<Rightarrow> bool \<Rightarrow> int option \<Rightarrow> jsval option" where
  "resolved_dimension explicit parsed required dflt =
     (case explicit of
        Some v \<Rightarrow> Some (JInt v)
      | None \<Rightarrow>
          (case parsed of
             Some v \<Rightarrow> Some v
           | None \<Rightarrow> if required then map_option JInt dflt else None))"

definition no_dimension_keys :: "ModelDefinition \<Rightarrow> bool" where
  "no_dimension_keys m =
     (case fixedPayload m of
        None \<Rightarrow> True
      | Some fp \<Rightarrow> map_of fp ''width'' = None \<and> map_of fp ''height'' = None)"

definition generate_example :: GenerateInput where
  "generate_example =
     \<lparr>g_model = flux_1_1_pro, g_prompt = ''x'', g_width = None, g_height = None, g_seed = None,
      g_batch_size = None, g_guidance_scale = None, g_num_inference_steps = None,
      g_negative_prompt = None, g_size = None, g_style = None, g_reference_image = None,
      g_reference_images = None, g_image_url = None, g_sync_mode = None,
      g_wait_for_completion = None, g_poll_interval_ms = None, g_timeout_ms = None\<rparr>"

text \<open>
  The normalized status of a job record, and the errors of the transport: a
  \<open>KreaApiError\<close>, or the \<open>TypeError\<close> of a \<open>fetch\<close> that failed.
\<close>

definition job_status :: "jsval \<Rightarrow> string" where
  "job_status j =
     (case readString j [''status''] of
        Inr st \<Rightarrow> normalizeStatus (js_of_opt st)
      | Inl _ \<Rightarrow> ''unknown'')"

















section \<open>Properties\<close>

subsection \<open>URL extraction\<close>

lemma set_snoc: "stack \<noteq> [] \<Longrightarrow> set stack = insert (last stack) (set (butlast stack))"
  by (induction stack) auto

lemma extract_loop_set:
  "set (extract_loop P found stack) =
     set found \<union> {s \<in> (\<Union>v \<in> set stack. string_leaves v). looksLikeUrl P s}"
proof (induction P found stack rule: extract_loop.induct)
  case (1 P found stack)
  show ?case
  proof (cases "stack = []")
    case True
    then show ?thesis by (simp add: extract_loop.simps)
  next
    case False
    note split = set_snoc [OF False]
    show ?thesis
    proof (cases "last stack")
      case (JStr s)
      with False 1(6) [OF False refl refl JStr] split show ?thesis
        by (subst extract_loop.simps) (auto simp: set_add_def)
    next
      case (JArr items)
      with False 1(7) [OF False refl refl JArr] split show ?thesis
        by (subst extract_loop.simps) auto
    next
      case (JObj kvs)
      with False 1(8) [OF False refl refl JObj] split show ?thesis
        by (subst extract_loop.simps) (auto simp: Object_values_def)
    next
      case JUndefined
      with False 1(1) [OF False refl refl JUndefined] split show ?thesis
        by (subst extract_loop.simps) auto
    next
      case JNull
      with False 1(2) [OF False refl refl JNull] split show ?thesis
        by (subst extract_loop.simps) auto
    next
      case (JBool b)
      with False 1(3) [OF False refl refl JBool] split show ?thesis
        by (subst extract_loop.simps) auto
    next
      case (JNum n)
      with False 1(4) [OF False refl refl JNum] split show ?thesis
        by (subst extract_loop.simps) auto
    next
      case JInfinity
      with False 1(5) [OF False refl refl JInfinity] split show ?thesis
        by (subst extract_loop.simps) auto
    qed
  qed
qed

lemma extract_loop_distinct:
  "distinct found \<Longrightarrow> distinct (extract_loop P found stack)"
proof (induction P found stack rule: extract_loop.induct)
  case (1 P found stack)
  show ?case
  proof (cases "stack = []")
    case True
    with 1(9) show ?thesis by (simp add: extract_loop.simps)
  next
    case False
    have add: "distinct (if looksLikeUrl P s then set_add found s else found)" for s
      using 1(9) by (simp add: set_add_def)
    show ?thesis
      using False 1(1-8) [OF False refl refl] 1(9) add
      by (subst extract_loop.simps) (simp add: Let_def split: jsval.split)
  qed
qed

lemma example_run:
  assumes "URL_protocol P ''https://x.test/i.png'' = Some ''https:''"
    and "URL_protocol P ''not a url'' = None"
    and "URL_protocol P ''http://y.test/j.png'' = Some ''http:''"
    and "URL_protocol P ''ftp://bad'' = Some ''ftp:''"
  shows "extractHttpUrls P example_value = [''http://y.test/j.png'', ''https://x.test/i.png'']"
  using assms
  by (simp add: extractHttpUrls_def example_value_def extract_loop.simps looksLikeUrl_def
        set_add_def Object_values_def)

text \<open>
  C8. For every value, \<open>extractHttpUrls\<close> returns, without duplicates, exactly the string
  leaves of the value that \<open>new URL\<close> parses with protocol \<open>http:\<close> or \<open>https:\<close>: the
  result is a set, and nothing that is not a string leaf is in it. On the value
  \<open>{"a": "https://x.test/i.png", "b": ["not a url", "http://y.test/j.png"], "c": {"d":
  "ftp://bad"}}\<close>, where the URL parser reads the protocols \<open>https:\<close>, \<open>http:\<close> and \<open>ftp:\<close>
  and rejects \<open>not a url\<close>, the result is the two URLs of \<open>a\<close> and \<open>b\<close> and has two
  elements.
\<close>

theorem extractHttpUrls_url_leaves:
  "set (extractHttpUrls P v) = {s \<in> string_leaves v. looksLikeUrl P s}
   \<and> distinct (extractHttpUrls P v)
   \<and> (URL_protocol P ''https://x.test/i.png'' = Some ''https:''
        \<and> URL_protocol P ''not a url'' = None
        \<and> URL_protocol P ''http://y.test/j.png'' = Some ''http:''
        \<and> URL_protocol P ''ftp://bad'' = Some ''ftp:''
      \<longrightarrow> set (extractHttpUrls P example_value) = {''https://x.test/i.png'', ''http://y.test/j.png''}
          \<and> length (extractHttpUrls P example_value) = 2)"
proof (intro conjI impI)
  show "set (extractHttpUrls P v) = {s \<in> string_leaves v. looksLikeUrl P s}"
    by (simp add: extractHttpUrls_def extract_loop_set)
  show "distinct (extractHttpUrls P v)"
    by (simp add: extractHttpUrls_def extract_loop_distinct)
next
  assume protocols:
    "URL_protocol P ''https://x.test/i.png'' = Some ''https:''
     \<and> URL_protocol P ''not a url'' = None
     \<and> URL_protocol P ''http://y.test/j.png'' = Some ''http:''
     \<and> URL_protocol P ''ftp://bad'' = Some ''ftp:''"
  then have run:
    "extractHttpUrls P example_value = [''http://y.test/j.png'', ''https://x.test/i.png'']"
    by (simp add: example_run)
  show "set (extractHttpUrls P example_value) = {''https://x.test/i.png'', ''http://y.test/j.png''}"
    unfolding run by auto
  show "length (extractHttpUrls P example_value) = 2"
    unfolding run by simp
qed

theorem extractHttpUrls_url_leaves_witness:
  "URL_protocol test_platform ''https://x.test/i.png'' = Some ''https:''
   \<and> URL_protocol test_platform ''not a url'' = None
   \<and> URL_protocol test_platform ''http://y.test/j.png'' = Some ''http:''
   \<and> URL_protocol test_platform ''ftp://bad'' = Some ''ftp:''
   \<and> set (extractHttpUrls test_platform example_value)
       = {''https://x.test/i.png'', ''http://y.test/j.png''}
   \<and> length (extractHttpUrls test_platform example_value) = 2"
proof -
  have protocols:
    "URL_protocol test_platform ''https://x.test/i.png'' = Some ''https:''
     \<and> URL_protocol test_platform ''not a url'' = None
     \<and> URL_protocol test_platform ''http://y.test/j.png'' = Some ''http:''
     \<and> URL_protocol test_platform ''ftp://bad'' = Some ''ftp:''"
    by (simp add: test_platform_def)
  with extractHttpUrls_url_leaves [of test_platform example_value] show ?thesis
    by blast
qed

subsection \<open>The upscale builder\<close>

lemma set_checked_step_of:
  "set_checked fld chk key f =
     step_of (case fld of None \<Rightarrow> None | Some v \<Rightarrow> chk v) (set_opt fld key f)"
  by (auto simp: set_checked_def step_of_def set_opt_def fun_eq_iff split: option.splits)

lemma run_steps_Cons_step_of:
  "run_steps (step_of e u # steps) p =
     (case e of Some m \<Rightarrow> Inl (Error m) | None \<Rightarrow> run_steps steps (u p))"
  by (simp add: step_of_def split: option.splits)

lemma chk_none: "(case x of None \<Rightarrow> None | Some v \<Rightarrow> no_check v) = None"
  by (simp add: no_check_def split: option.splits)

lemma chk_reject:
  "(case x of None \<Rightarrow> None | Some v \<Rightarrow> reject_when b m v) = (if x \<noteq> None \<and> b then Some m else None)"
  by (simp add: reject_when_def split: option.splits)

lemma chk_creativity:
  "(case x of None \<Rightarrow> None | Some c \<Rightarrow> check_creativity md c) =
     (if x \<noteq> None \<and> md = standard
      then Some ''creativity is only supported in generative or bloom mode.''
      else if md = generative \<and> (case x of None \<Rightarrow> False | Some c \<Rightarrow> c > 6)
      then Some ''generative mode supports creativity from 1 to 6.''
      else None)"
  by (simp add: check_creativity_def split: option.splits)

lemmas gate_simps =
  upscale_steps_def set_checked_step_of run_steps_Cons_step_of chk_none chk_reject
  chk_creativity gating_table_def plain_gate_def violated_def gate_message_def mode_name_def

lemma case_if_opt:
  "(case (if c then Some m else None) of Some m \<Rightarrow> f m | None \<Rightarrow> r) = (if c then f m else r)"
  by simp

lemma case_option_if:
  "(case (if c then a else b) of None \<Rightarrow> r | Some g \<Rightarrow> f g) =
     (if c then (case a of None \<Rightarrow> r | Some g \<Rightarrow> f g) else (case b of None \<Rightarrow> r | Some g \<Rightarrow> f g))"
  by simp

lemma supplied_and_case:
  "((\<exists>y. x = Some y) \<and> (case x of None \<Rightarrow> False | Some c \<Rightarrow> Q c))
   = (case x of None \<Rightarrow> False | Some c \<Rightarrow> Q c)"
  by (cases x) auto

lemma steps_result:
  assumes "effective_mode input = md"
  shows "run_steps (upscale_steps md input)
           [(''width'', JInt (width input)), (''height'', JInt (height input)),
            (''image_url'', JStr (image_url input)), (''model'', JStr name)] =
         (case List.find (violated md) (gating_table input) of
            Some g \<Rightarrow> Inl (Error (gate_message md g))
          | None \<Rightarrow> Inr (upscale_payload input name))"
  using assms
  by (cases md)
     (simp_all add: gate_simps case_if_opt case_option_if supplied_and_case upscale_payload_def
        del: run_steps.simps(2) split del: if_split cong: if_cong)

lemma buildUpscaleRequest_result:
  "buildUpscaleRequest input =
     (let md = effective_mode input in
      if width input > maxDimension md \<or> height input > maxDimension md
      then Inl (Error (dimension_message md (width input) (height input)))
      else (case resolveUpscaleModel md (model input) of
              Inl e \<Rightarrow> Inl e
            | Inr name \<Rightarrow>
                (case List.find (violated md) (gating_table input) of
                   Some g \<Rightarrow> Inl (Error (gate_message md g))
                 | None \<Rightarrow>
                     Inr \<lparr>req_mode = md, req_endpoint = upscale_endpoint md,
                          normalizedModel = name, req_payload = upscale_payload input name\<rparr>)))"
  unfolding buildUpscaleRequest_def effective_mode_def [symmetric] Let_def
  by (simp add: steps_result [OF refl] split: sum.splits option.splits)

lemma resolveUpscaleModel_Error:
  "resolveUpscaleModel md name = Inl e \<Longrightarrow> \<exists>msg. e = Error msg"
  by (auto simp: resolveUpscaleModel_def Let_def split: if_splits)

lemma find_violated:
  "g \<in> set gs \<Longrightarrow> violated md g \<Longrightarrow> \<exists>g'. List.find (violated md) gs = Some g'"
  by (cases "List.find (violated md) gs") (auto simp: find_None_iff)

lemma steps_ignore_polling:
  "upscale_steps md (input\<lparr>mode := m, wait_for_completion := a,
            poll_interval_ms := b, timeout_ms := c\<rparr>) = upscale_steps md input"
  by (simp add: upscale_steps_def)

lemma builder_ignores_polling:
  "buildUpscaleRequest
     (input\<lparr>mode := Some (effective_mode input), wait_for_completion := a,
            poll_interval_ms := b, timeout_ms := c\<rparr>) = buildUpscaleRequest input"
  by (simp add: buildUpscaleRequest_def steps_ignore_polling effective_mode_def Let_def
        cong: sum.case_cong if_cong)

lemma upscale_fails_before_network:
  "buildUpscaleRequest input = Inl e \<Longrightarrow> krea_upscale_image P E input w = Some (Inl e, w)"
  using builder_ignores_polling
  by (simp add: krea_upscale_image_def effective_mode_def Let_def)

lemma map_of_overwrite:
  "map_of (map (\<lambda>(a, x). if a = k then (a, v) else (a, x)) p) k' =
     (if k' = k then (case map_of p k of None \<Rightarrow> None | Some _ \<Rightarrow> Some v) else map_of p k')"
proof (induction p)
  case Nil
  show ?case by simp
next
  case (Cons ax p)
  obtain a x where ax: "ax = (a, x)" by (cases ax)
  show ?case
  proof (cases "a = k")
    case True
    with Cons ax show ?thesis by simp
  next
    case False
    with Cons ax show ?thesis by (cases "k' = k") simp_all
  qed
qed

lemma map_of_obj_set:
  "map_of (obj_set p k v) k' = (if k' = k then Some v else map_of p k')"
proof (cases "k \<in> fst ` set p")
  case True
  then obtain x where "map_of p k = Some x"
    by (cases "map_of p k") (simp_all add: map_of_eq_None_iff)
  with True show ?thesis by (simp add: obj_set_def map_of_overwrite)
next
  case False
  then have "map_of p k = None" by (simp add: map_of_eq_None_iff)
  with False show ?thesis by (simp add: obj_set_def map_add_def split: option.splits)
qed

lemma map_of_set_opt:
  "map_of (set_opt fld k f p) k' =
     (if k' = k \<and> fld \<noteq> None then map_option f fld else map_of p k')"
  by (cases fld) (simp_all add: set_opt_def map_of_obj_set)

lemma payload_creativity:
  "map_of (upscale_payload input name) ''creativity'' = map_option JInt (creativity input)"
  by (simp add: upscale_payload_def map_of_set_opt)

lemma no_violation_find:
  "(\<forall>g \<in> set gs. \<not> violated md g) \<Longrightarrow> List.find (violated md) gs = None"
  by (simp add: find_None_iff)

text \<open>
  C1. In every upscale request, a mode-gated parameter supplied to a mode that does not
  support it makes the build fail with an \<open>Error\<close>: \<open>sharpen\<close>, \<open>denoise\<close>,
  \<open>subject_detection\<close>, \<open>face_enhancement\<close>, \<open>face_enhancement_creativity\<close> and
  \<open>face_enhancement_strength\<close> in bloom mode, \<open>strength\<close> and \<open>fix_compression\<close> outside
  standard mode, \<open>texture\<close> and \<open>detail\<close> outside generative mode, \<open>creativity\<close> in
  standard mode, \<open>face_preservation\<close> and \<open>color_preservation\<close> outside bloom mode. The
  build stops at the first violated row of the table (once the dimensions and the model name
  have passed), its message is the one of that row, and the message of a mode violation
  begins with the name of the parameter. The tool returns the failure with the world
  untouched: no request was sent. In generative mode a \<open>creativity\<close> above 6 fails, and
  \<open>creativity = 6\<close> succeeds when nothing else is violated, with \<open>creativity\<close> 6 in
  the payload.
\<close>

theorem upscale_mode_gating_fails_fast:
  "(\<forall>g \<in> set (gating_table input). violated (effective_mode input) g \<longrightarrow>
      (\<exists>msg. buildUpscaleRequest input = Inl (Error msg)))
   \<and> (width input \<le> maxDimension (effective_mode input)
        \<and> height input \<le> maxDimension (effective_mode input)
        \<and> resolveUpscaleModel (effective_mode input) (model input) = Inr name
        \<and> List.find (violated (effective_mode input)) (gating_table input) = Some g
      \<longrightarrow> buildUpscaleRequest input = Inl (Error (gate_message (effective_mode input) g))
          \<and> (effective_mode input \<notin> set (allowed g)
               \<longrightarrow> prefix (param g) (gate_message (effective_mode input) g)))
   \<and> (buildUpscaleRequest input = Inl e \<longrightarrow> krea_upscale_image P E input w = Some (Inl e, w))
   \<and> (effective_mode input = generative \<and> creativity input = Some c \<and> c > 6
      \<longrightarrow> (\<exists>msg. buildUpscaleRequest input = Inl (Error msg)))
   \<and> (effective_mode input = generative \<and> creativity input = Some 6
        \<and> width input \<le> maxDimension generative \<and> height input \<le> maxDimension generative
        \<and> resolveUpscaleModel generative (model input) = Inr name
        \<and> (\<forall>g \<in> set (gating_table input).
              param g \<noteq> ''creativity'' \<longrightarrow> \<not> violated generative g)
      \<longrightarrow> buildUpscaleRequest input =
            Inr \<lparr>req_mode = generative, req_endpoint = upscale_endpoint generative,
                 normalizedModel = name, req_payload = upscale_payload input name\<rparr>
          \<and> map_of (upscale_payload input name) ''creativity'' = Some (JInt 6))"
proof -
  let ?md = "effective_mode input"
  have any: "\<exists>msg. buildUpscaleRequest input = Inl (Error msg)"
    if row: "g' \<in> set (gating_table input)" "violated ?md g'" for g'
  proof -
    obtain g'' where "List.find (violated ?md) (gating_table input) = Some g''"
      using find_violated [OF row] by blast
    then show ?thesis
      using resolveUpscaleModel_Error [of ?md "model input"]
      by (auto simp: buildUpscaleRequest_result Let_def split: sum.splits)
  qed
  have first: "buildUpscaleRequest input = Inl (Error (gate_message ?md g))"
    if "width input \<le> maxDimension ?md" "height input \<le> maxDimension ?md"
      "resolveUpscaleModel ?md (model input) = Inr name"
      "List.find (violated ?md) (gating_table input) = Some g"
    using that by (simp add: buildUpscaleRequest_result Let_def)
  have names: "prefix (param g) (gate_message ?md g)" if "?md \<notin> set (allowed g)"
    using that by (simp add: gate_message_def)
  have network: "krea_upscale_image P E input w = Some (Inl e, w)"
    if "buildUpscaleRequest input = Inl e"
    using that by (rule upscale_fails_before_network)
  have seven: "\<exists>msg. buildUpscaleRequest input = Inl (Error msg)"
    if "?md = generative" "creativity input = Some c" "c > 6"
  proof (rule any)
    show "\<lparr>param = ''creativity'', supplied = (creativity input \<noteq> None),
            allowed = [generative, bloom],
            extra_violated = (effective_mode input = generative
                              \<and> (case creativity input of None \<Rightarrow> False | Some c \<Rightarrow> c > 6)),
            extra_message = ''generative mode supports creativity from 1 to 6.''\<rparr>
          \<in> set (gating_table input)"
      by (simp add: gating_table_def)
    show "violated ?md \<lparr>param = ''creativity'', supplied = (creativity input \<noteq> None),
            allowed = [generative, bloom],
            extra_violated = (effective_mode input = generative
                              \<and> (case creativity input of None \<Rightarrow> False | Some c \<Rightarrow> c > 6)),
            extra_message = ''generative mode supports creativity from 1 to 6.''\<rparr>"
      using that by (simp add: violated_def)
  qed
  have six: "buildUpscaleRequest input =
            Inr \<lparr>req_mode = generative, req_endpoint = upscale_endpoint generative,
                 normalizedModel = name, req_payload = upscale_payload input name\<rparr>
          \<and> map_of (upscale_payload input name) ''creativity'' = Some (JInt 6)"
    if md: "?md = generative" and c: "creativity input = Some 6"
      and dims: "width input \<le> maxDimension generative" "height input \<le> maxDimension generative"
      and name: "resolveUpscaleModel generative (model input) = Inr name"
      and others: "\<forall>g \<in> set (gating_table input).
              param g \<noteq> ''creativity'' \<longrightarrow> \<not> violated generative g"
  proof -
    have "\<forall>g \<in> set (gating_table input). \<not> violated generative g"
    proof
      fix g' assume in_table: "g' \<in> set (gating_table input)"
      show "\<not> violated generative g'"
      proof (cases "param g' = ''creativity''")
        case False
        with others in_table show ?thesis by blast
      next
        case True
        with in_table md c show ?thesis
          by (auto simp: gating_table_def plain_gate_def violated_def)
      qed
    qed
    then have "List.find (violated generative) (gating_table input) = None"
      by (rule no_violation_find)
    with md dims name c show ?thesis
      by (simp add: buildUpscaleRequest_result Let_def payload_creativity)
  qed
  from any first names network seven six show ?thesis by blast
qed

lemmas table_simps =
  gating_table_def plain_gate_def violated_def gate_message_def effective_mode_def
  upscale_example_def maxDimension_def resolveUpscaleModel_def UPSCALE_STANDARD_MODELS_def
  UPSCALE_GENERATIVE_MODELS_def mode_name_def

theorem upscale_mode_gating_fails_fast_witness:
  "buildUpscaleRequest (upscale_example\<lparr>creativity := Some 3\<rparr>) =
     Inl (Error ''creativity is only supported in generative or bloom mode.'')
   \<and> krea_upscale_image test_platform (scripted_env []) (upscale_example\<lparr>creativity := Some 3\<rparr>)
         world0 =
       Some (Inl (Error ''creativity is only supported in generative or bloom mode.''), world0)
   \<and> buildUpscaleRequest
         (upscale_example\<lparr>mode := Some bloom, sharpen := Some 0.5, denoise := Some 0.5\<rparr>) =
       Inl (Error ''sharpen is not supported in bloom mode.'')
   \<and> prefix ''sharpen'' ''sharpen is not supported in bloom mode.''
   \<and> (\<exists>msg. buildUpscaleRequest (upscale_example\<lparr>mode := Some generative, creativity := Some 7\<rparr>)
               = Inl (Error msg))
   \<and> buildUpscaleRequest (upscale_example\<lparr>mode := Some generative, creativity := Some 6\<rparr>) =
       Inr \<lparr>req_mode = generative, req_endpoint = upscale_endpoint generative,
            normalizedModel = ''Redefine'',
            req_payload =
              upscale_payload (upscale_example\<lparr>mode := Some generative, creativity := Some 6\<rparr>)
                ''Redefine''\<rparr>
   \<and> map_of (upscale_payload (upscale_example\<lparr>mode := Some generative, creativity := Some 6\<rparr>)
               ''Redefine'') ''creativity'' = Some (JInt 6)"
proof -
  let ?std = "upscale_example\<lparr>creativity := Some 3\<rparr>"
  let ?g_std = "\<lparr>param = ''creativity'', supplied = True, allowed = [generative, bloom],
                 extra_violated = False,
                 extra_message = ''generative mode supports creativity from 1 to 6.''\<rparr>"
  let ?msg = "''creativity is only supported in generative or bloom mode.''"
  have std: "buildUpscaleRequest ?std = Inl (Error ?msg)"
    using upscale_mode_gating_fails_fast [where input = ?std and name = "''Standard V2''"
        and g = ?g_std]
    by (simp add: table_simps)
  have net: "krea_upscale_image test_platform (scripted_env []) ?std world0 =
               Some (Inl (Error ?msg), world0)"
    using std upscale_mode_gating_fails_fast [where input = ?std and e = "Error ?msg"
        and P = test_platform and E = "scripted_env []" and w = world0]
    by blast
  let ?blm = "upscale_example\<lparr>mode := Some bloom, sharpen := Some 0.5, denoise := Some 0.5\<rparr>"
  let ?g_blm = "plain_gate ''sharpen'' True [standard, generative]"
  have blm: "buildUpscaleRequest ?blm = Inl (Error ''sharpen is not supported in bloom mode.'')
             \<and> prefix ''sharpen'' ''sharpen is not supported in bloom mode.''"
    using upscale_mode_gating_fails_fast [where input = ?blm and name = "''Reimagine''"
        and g = ?g_blm]
    by (simp add: table_simps)
  let ?gen7 = "upscale_example\<lparr>mode := Some generative, creativity := Some 7\<rparr>"
  have gen7: "\<exists>msg. buildUpscaleRequest ?gen7 = Inl (Error msg)"
    using upscale_mode_gating_fails_fast [where input = ?gen7 and c = 7]
    by (simp add: table_simps)
  let ?gen6 = "upscale_example\<lparr>mode := Some generative, creativity := Some 6\<rparr>"
  have gen6: "buildUpscaleRequest ?gen6 =
       Inr \<lparr>req_mode = generative, req_endpoint = upscale_endpoint generative,
            normalizedModel = ''Redefine'', req_payload = upscale_payload ?gen6 ''Redefine''\<rparr>
       \<and> map_of (upscale_payload ?gen6 ''Redefine'') ''creativity'' = Some (JInt 6)"
    using upscale_mode_gating_fails_fast [where input = ?gen6 and name = "''Redefine''"]
    by (simp add: table_simps)
  from std net blm gen7 gen6 show ?thesis by blast
qed

text \<open>
  C6. The mode fixes the endpoint, one path for each of standard, generative and bloom, and
  the largest width and height: 32000 for standard and generative, 10000 for bloom. A width
  or height above the limit of the mode fails the build with the dimension message, and the
  tool returns that failure with the world untouched; a request that is built carries the
  mode, the endpoint of the mode, and dimensions within the limit.
\<close>

theorem upscale_mode_endpoint_and_limit:
  "maxDimension standard = 32000 \<and> maxDimension generative = 32000 \<and> maxDimension bloom = 10000
   \<and> upscale_endpoint standard = ''/generate/enhance/topaz/standard-enhance''
   \<and> upscale_endpoint generative = ''/generate/enhance/topaz/generative-enhance''
   \<and> upscale_endpoint bloom = ''/generate/enhance/topaz/bloom-enhance''
   \<and> (width input > maxDimension (effective_mode input)
        \<or> height input > maxDimension (effective_mode input)
      \<longrightarrow> buildUpscaleRequest input =
            Inl (Error (dimension_message (effective_mode input) (width input) (height input)))
          \<and> krea_upscale_image P E input w =
              Some (Inl (Error (dimension_message (effective_mode input) (width input)
                                  (height input))), w))
   \<and> (buildUpscaleRequest input = Inr r
      \<longrightarrow> req_mode r = effective_mode input
          \<and> req_endpoint r = upscale_endpoint (effective_mode input)
          \<and> width input \<le> maxDimension (effective_mode input)
          \<and> height input \<le> maxDimension (effective_mode input))"
proof -
  have limits: "maxDimension standard = 32000 \<and> maxDimension generative = 32000
                \<and> maxDimension bloom = 10000"
    by (simp add: maxDimension_def)
  have paths: "upscale_endpoint standard = ''/generate/enhance/topaz/standard-enhance''
     \<and> upscale_endpoint generative = ''/generate/enhance/topaz/generative-enhance''
     \<and> upscale_endpoint bloom = ''/generate/enhance/topaz/bloom-enhance''"
    by (simp add: upscale_endpoint_def)
  have too_big: "buildUpscaleRequest input =
            Inl (Error (dimension_message (effective_mode input) (width input) (height input)))"
    if "width input > maxDimension (effective_mode input)
        \<or> height input > maxDimension (effective_mode input)"
    using that by (auto simp: buildUpscaleRequest_result Let_def)
  have built: "req_mode r = effective_mode input
          \<and> req_endpoint r = upscale_endpoint (effective_mode input)
          \<and> width input \<le> maxDimension (effective_mode input)
          \<and> height input \<le> maxDimension (effective_mode input)"
    if "buildUpscaleRequest input = Inr r"
    using that
    by (auto simp: buildUpscaleRequest_result Let_def split: if_splits sum.splits option.splits)
  from limits paths too_big built upscale_fails_before_network show ?thesis
    by metis
qed

lemma show_int_examples:
  "show_int 20000 = ''20000''" "show_int 10000 = ''10000''" "show_int 1024 = ''1024''"
  by (simp_all add: show_int_def show_nat.simps digit_char_def)

theorem upscale_mode_endpoint_and_limit_witness:
  "buildUpscaleRequest (upscale_example\<lparr>mode := Some bloom, width := 20000\<rparr>) =
     Inl (Error ''Mode bloom supports up to 10000x10000. Received 20000x1024.'')
   \<and> krea_upscale_image test_platform (scripted_env [])
         (upscale_example\<lparr>mode := Some bloom, width := 20000\<rparr>) world0 =
       Some (Inl (Error ''Mode bloom supports up to 10000x10000. Received 20000x1024.''), world0)
   \<and> (\<exists>r. buildUpscaleRequest (upscale_example\<lparr>mode := Some bloom, width := 10000\<rparr>) = Inr r
          \<and> req_endpoint r = ''/generate/enhance/topaz/bloom-enhance'')"
proof -
  let ?big = "upscale_example\<lparr>mode := Some bloom, width := 20000\<rparr>"
  have big: "buildUpscaleRequest ?big =
     Inl (Error ''Mode bloom supports up to 10000x10000. Received 20000x1024.'')
   \<and> krea_upscale_image test_platform (scripted_env []) ?big world0 =
       Some (Inl (Error ''Mode bloom supports up to 10000x10000. Received 20000x1024.''), world0)"
    using upscale_mode_endpoint_and_limit [where input = ?big and P = test_platform
        and E = "scripted_env []" and w = world0]
    by (simp add: table_simps dimension_message_def show_int_examples)
  let ?fits = "upscale_example\<lparr>mode := Some bloom, width := 10000\<rparr>"
  obtain r where r: "buildUpscaleRequest ?fits = Inr r"
    by (simp add: buildUpscaleRequest_result table_simps)
  then have "req_endpoint r = ''/generate/enhance/topaz/bloom-enhance''"
    using upscale_mode_endpoint_and_limit [where input = ?fits and r = r]
    by (simp add: table_simps)
  with r big show ?thesis by blast
qed

subsection \<open>The client and the transport\<close>

text \<open>
  A base URL that ends in two slashes keeps one of them: the client built from it sends to
  another URL than the client built from the base URL without its last slash, which the
  constructor strips once more, and the URL it sends to has a double slash where base and
  path meet.
\<close>

theorem trailing_slash_counterexample:
  "endsWith_slash ''https://api.krea.ai/v1//''
   \<and> url (request_of (new_KreaClient ''k'' (Some ''https://api.krea.ai/v1//'')) ''/jobs/1'' ''GET'' None)
       = ''https://api.krea.ai/v1//jobs/1''
   \<and> url (request_of (new_KreaClient ''k'' (Some (butlast ''https://api.krea.ai/v1//'')))
              ''/jobs/1'' ''GET'' None)
       = ''https://api.krea.ai/v1/jobs/1''
   \<and> url (request_of (new_KreaClient ''k'' (Some ''https://api.krea.ai/v1//'')) ''/jobs/1'' ''GET'' None)
       \<noteq> url (request_of (new_KreaClient ''k'' (Some (butlast ''https://api.krea.ai/v1//'')))
                ''/jobs/1'' ''GET'' None)"
  by (simp add: endsWith_slash_def new_KreaClient_def request_of_def)

lemma butlast_snoc_last: "b \<noteq> [] \<Longrightarrow> last b = c \<Longrightarrow> butlast b @ [c] = b"
  by auto

text \<open>
  C10, amended. The constructor strips exactly one trailing slash: of a base URL that ends
  in a slash it stores all but the last character. For every API key and every base URL
  that ends in exactly one slash (in a slash, but not in two), the client built from it is
  the client built from the base URL without that slash, both send the same requests, and
  the stored base does not end in a slash, so that a path beginning with a slash meets it
  with a single slash.
\<close>

theorem single_trailing_slash:
  "(endsWith_slash b \<longrightarrow> baseUrl (new_KreaClient key (Some b)) = butlast b
                          \<and> baseUrl (new_KreaClient key (Some b)) @ ''/'' = b)
   \<and> (endsWith_slash b \<and> \<not> endsWith_slash (butlast b) \<longrightarrow>
        new_KreaClient key (Some b) = new_KreaClient key (Some (butlast b))
        \<and> request_of (new_KreaClient key (Some b)) path meth payload
            = request_of (new_KreaClient key (Some (butlast b))) path meth payload
        \<and> \<not> endsWith_slash (baseUrl (new_KreaClient key (Some b))))"
  by (auto simp: new_KreaClient_def endsWith_slash_def butlast_snoc_last)

theorem single_trailing_slash_witness:
  "endsWith_slash ''https://api.krea.ai/v1/'' \<and> \<not> endsWith_slash (butlast ''https://api.krea.ai/v1/'')
   \<and> new_KreaClient ''k'' (Some ''https://api.krea.ai/v1/'')
       = new_KreaClient ''k'' (Some ''https://api.krea.ai/v1'')
   \<and> url (request_of (new_KreaClient ''k'' (Some ''https://api.krea.ai/v1/'')) ''/jobs/1'' ''GET'' None)
       = ''https://api.krea.ai/v1/jobs/1''"
proof -
  have hyp: "endsWith_slash ''https://api.krea.ai/v1/''
             \<and> \<not> endsWith_slash (butlast ''https://api.krea.ai/v1/'')"
    by (simp add: endsWith_slash_def)
  have "url (request_of (new_KreaClient ''k'' (Some (butlast ''https://api.krea.ai/v1/'')))
               ''/jobs/1'' ''GET'' None) = ''https://api.krea.ai/v1/jobs/1''"
    by (simp add: endsWith_slash_def new_KreaClient_def request_of_def)
  with hyp single_trailing_slash [of "''https://api.krea.ai/v1/''" "''k''" "''/jobs/1''" "''GET''" None]
  show ?thesis by simp
qed

lemma trimStart_keeps:
  assumes "s \<noteq> []" "hd s \<notin> set (concat white_space)"
  shows "trimStart s = s"
proof -
  have "\<not> prefix w s" if "w \<in> set white_space" for w
  proof
    assume "prefix w s"
    moreover from that have "w \<noteq> []" by (rule white_space_not_empty)
    ultimately have "hd s = hd w" "hd w \<in> set w"
      using assms(1) by (auto simp: prefix_def)
    with that assms(2) show False by auto
  qed
  then have "List.find (\<lambda>w. prefix w s) white_space = None"
    by (simp add: find_None_iff)
  then show ?thesis by (subst trimStart.simps) simp
qed

lemma trimEnd_keeps_head:
  "s \<noteq> [] \<Longrightarrow> hd s \<notin> set (concat white_space) \<Longrightarrow> trimEnd s \<noteq> []"
proof (induction s rule: trimEnd.induct)
  case (1 s)
  show ?case
  proof (cases "List.find (\<lambda>w. suffix w s) white_space")
    case None
    with 1(2) show ?thesis by (subst trimEnd.simps) simp
  next
    case (Some w)
    then have w: "w \<in> set white_space" "suffix w s"
      by (auto simp: find_Some_iff)
    then obtain u where u: "s = u @ w" by (auto simp: suffix_def)
    have "u \<noteq> []"
    proof
      assume "u = []"
      with u 1(2) have "hd s \<in> set w" by simp
      with w(1) 1(3) show False by auto
    qed
    with u have "take (length s - length w) s = u" "hd u = hd s" by simp_all
    with 1(1) [OF Some] 1(3) \<open>u \<noteq> []\<close> have "trimEnd u \<noteq> []" by simp
    with Some \<open>take (length s - length w) s = u\<close> show ?thesis
      by (subst trimEnd.simps) simp
  qed
qed

lemma trim_not_blank: "s \<noteq> [] \<Longrightarrow> hd s \<notin> set (concat white_space) \<Longrightarrow> trim s \<noteq> []"
  by (simp add: trim_def trimStart_keeps trimEnd_keeps_head)

lemma trim_empty: "trim [] = []"
  by (simp add: trim_def trimStart.simps [of "[]"] trimEnd.simps [of "[]"] white_space_def)

lemma trim_space: "trim '' '' = []"
proof -
  have "trimStart '' '' = trimStart []"
    by (subst trimStart.simps) (simp add: white_space_def)
  then show ?thesis
    by (simp add: trim_def trimStart.simps [of "[]"] trimEnd.simps [of "[]"] white_space_def)
qed

lemma trim_no_break_space: "trim [CHR 0xC2, CHR 0xA0] = []"
proof -
  have "trimStart [CHR 0xC2, CHR 0xA0] = trimStart []"
    by (subst trimStart.simps) (simp add: white_space_def)
  then show ?thesis
    by (simp add: trim_def trimStart.simps [of "[]"] trimEnd.simps [of "[]"] white_space_def)
qed

lemma request_sends_one:
  "sent (snd (request P E c path meth payload w)) = sent w @ [request_of c path meth payload]"
  by (simp add: request_def fetch_def Let_def split: option.splits)

lemma request_answer:
  "fst (request P E c path meth payload w) =
     (case respond E (length (sent w)) (request_of c path meth payload) of
        None \<Rightarrow> Inl (TypeError ''fetch failed'')
      | Some response \<Rightarrow>
          if ok response then Inr (parse_body P (bodyText response))
          else Inl (KreaApiError (''Krea API error '' @ show_int (status response))
                      (status response)
                      (stringifyUnknown P (parse_body P (bodyText response)))))"
  by (simp add: request_def fetch_def Let_def split: option.splits)

text \<open>
  A body of one space is not empty and is no JSON text, yet it is not kept as the raw text:
  the value of the call is \<open>undefined\<close>, and the \<open>KreaApiError\<close> of a status 500 carries
  no body string.
\<close>

theorem blank_body_counterexample:
  "'' '' \<noteq> [] \<and> JSON_parse test_platform '' '' = None
   \<and> fst (request test_platform (scripted_env [(200, '' '')])
            (new_KreaClient ''k'' None) ''/jobs/1'' ''GET'' None world0) = Inr JUndefined
   \<and> fst (request test_platform (scripted_env [(200, '' '')])
            (new_KreaClient ''k'' None) ''/jobs/1'' ''GET'' None world0) \<noteq> Inr (JStr '' '')
   \<and> fst (request test_platform (scripted_env [(500, '' '')])
            (new_KreaClient ''k'' None) ''/jobs/1'' ''GET'' None world0)
       = Inl (KreaApiError ''Krea API error 500'' 500 None)"
  by (simp add: request_answer scripted_env_def world0_def test_platform_def json_table_def ok_def
        parse_body_def trim_not_blank trim_space white_space_def stringifyUnknown_def show_int_def show_nat.simps
        digit_char_def)

text \<open>
  C7, amended. Every call of the transport sends exactly one request. When the server
  answers: a body that is not blank (not empty after trimming white space) and fails JSON
  parsing is kept as the raw text; a body that parses is its parsed value; a blank body is
  \<open>undefined\<close>. White space is what \<open>String.prototype.trim\<close> strips: a body of one
  no-break space is blank as well. A status outside 200..299 gives a \<open>KreaApiError\<close> with the status and
  the string form of that value (the raw text, a parsed string itself, the JSON text of any
  other parsed value; none for a blank body), and a call that returns a value had a
  status within 200..299.
\<close>

theorem request_parses_or_keeps_text:
  "sent (snd (request P E c path meth payload w)) = sent w @ [request_of c path meth payload]
   \<and> (respond E (length (sent w)) (request_of c path meth payload) = Some response \<longrightarrow>
        (ok response \<longrightarrow>
           fst (request P E c path meth payload w) = Inr (parse_body P (bodyText response)))
        \<and> (\<not> ok response \<longrightarrow>
           fst (request P E c path meth payload w)
             = Inl (KreaApiError (''Krea API error '' @ show_int (status response))
                      (status response) (stringifyUnknown P (parse_body P (bodyText response)))))
        \<and> (trim (bodyText response) \<noteq> [] \<and> JSON_parse P (bodyText response) = None \<longrightarrow>
             parse_body P (bodyText response) = JStr (bodyText response)
             \<and> stringifyUnknown P (parse_body P (bodyText response)) = Some (bodyText response))
        \<and> (trim (bodyText response) \<noteq> [] \<and> JSON_parse P (bodyText response) = Some v \<longrightarrow>
             parse_body P (bodyText response) = v
             \<and> (v \<noteq> JUndefined \<longrightarrow>
                 stringifyUnknown P v = Some (case v of JStr s \<Rightarrow> s | _ \<Rightarrow> JSON_stringify P v)))
        \<and> (trim (bodyText response) = [] \<longrightarrow>
             parse_body P (bodyText response) = JUndefined \<and> stringifyUnknown P JUndefined = None))
   \<and> (fst (request P E c path meth payload w) = Inr v' \<longrightarrow>
        (\<exists>r. respond E (length (sent w)) (request_of c path meth payload) = Some r \<and> ok r
             \<and> 200 \<le> status r \<and> status r \<le> 299))"
  by (auto simp: request_sends_one request_answer parse_body_def stringifyUnknown_def ok_def
        split: option.splits jsval.splits if_splits)

theorem request_parses_or_keeps_text_witness:
  "respond (scripted_env [(502, ''Bad Gateway'')]) (length (sent world0))
     (request_of (new_KreaClient ''k'' None) ''/jobs/1'' ''GET'' None)
     = Some \<lparr>status = 502, bodyText = ''Bad Gateway''\<rparr>
   \<and> \<not> ok \<lparr>status = 502, bodyText = ''Bad Gateway''\<rparr>
   \<and> trim ''Bad Gateway'' \<noteq> [] \<and> JSON_parse test_platform ''Bad Gateway'' = None
   \<and> fst (request test_platform (scripted_env [(502, ''Bad Gateway'')])
            (new_KreaClient ''k'' None) ''/jobs/1'' ''GET'' None world0)
       = Inl (KreaApiError ''Krea API error 502'' 502 (Some ''Bad Gateway''))
   \<and> length (sent (snd (request test_platform (scripted_env [(502, ''Bad Gateway'')])
            (new_KreaClient ''k'' None) ''/jobs/1'' ''GET'' None world0))) = 1
   \<and> trim [CHR 0xC2, CHR 0xA0] = []
   \<and> fst (request test_platform (scripted_env [(200, [CHR 0xC2, CHR 0xA0])])
            (new_KreaClient ''k'' None) ''/jobs/1'' ''GET'' None world0) = Inr JUndefined"
proof -
  let ?E = "scripted_env [(502, ''Bad Gateway'')]"
  let ?c = "new_KreaClient ''k'' None"
  let ?r = "\<lparr>status = 502, bodyText = ''Bad Gateway''\<rparr>"
  have answer: "respond ?E (length (sent world0)) (request_of ?c ''/jobs/1'' ''GET'' None) = Some ?r"
    by (simp add: scripted_env_def world0_def)
  have bad: "\<not> ok ?r" by (simp add: ok_def)
  have raw: "trim ''Bad Gateway'' \<noteq> [] \<and> JSON_parse test_platform ''Bad Gateway'' = None"
    by (simp add: trim_not_blank trim_space white_space_def test_platform_def json_table_def)
  have shown: "show_int 502 = ''502''"
    by (simp add: show_int_def show_nat.simps digit_char_def)
  let ?E' = "scripted_env [(200, [CHR 0xC2, CHR 0xA0])]"
  let ?r' = "\<lparr>status = 200, bodyText = [CHR 0xC2, CHR 0xA0]\<rparr>"
  have answer': "respond ?E' (length (sent world0)) (request_of ?c ''/jobs/1'' ''GET'' None) = Some ?r'"
    by (simp add: scripted_env_def world0_def)
  have good: "ok ?r'" by (simp add: ok_def)
  have blank: "fst (request test_platform ?E' ?c ''/jobs/1'' ''GET'' None world0) = Inr JUndefined"
    using answer' good trim_no_break_space
      request_parses_or_keeps_text [of test_platform ?E' ?c "''/jobs/1''" "''GET''" None world0 ?r']
    by simp
  from answer bad raw shown blank trim_no_break_space
    request_parses_or_keeps_text [of test_platform ?E ?c "''/jobs/1''" "''GET''" None world0 ?r]
  show ?thesis by (simp add: world0_def stringifyUnknown_def)
qed

subsection \<open>The generate builder\<close>

lemma map_of_resolve_dimension:
  "map_of (resolve_dimension explicit parsed required dflt key p) k =
     (case resolved_dimension explicit parsed required dflt of
        Some v \<Rightarrow> if k = key then Some v else map_of p k
      | None \<Rightarrow> map_of p k)"
  by (simp add: resolve_dimension_def resolved_dimension_def map_of_obj_set split: option.splits)

lemma map_of_dimension_or_default:
  "map_of (dimension_or_default explicit required dflt key p) k =
     (case resolved_dimension explicit None required dflt of
        Some v \<Rightarrow> if k = key then Some v else map_of p k
      | None \<Rightarrow> map_of p k)"
  by (simp add: dimension_or_default_def resolved_dimension_def map_of_obj_set split: option.splits)

lemma buildPayload_width:
  assumes "no_dimension_keys m"
  shows "map_of (buildPayload input m) ''width'' =
           resolved_dimension (g_width input)
             (map_option fst (parseSize (g_size input)))
             (''width'' \<in> set (requiredFields m)) (defaultWidth m)"
  using assms
  by (simp add: buildPayload_def Let_def no_dimension_keys_def map_of_set_opt
        map_of_resolve_dimension map_of_obj_set split: option.splits)

lemma buildPayload_height:
  assumes "no_dimension_keys m"
  shows "map_of (buildPayload input m) ''height'' =
           resolved_dimension (g_height input)
             (map_option snd (parseSize (g_size input)))
             (''height'' \<in> set (requiredFields m)) (defaultHeight m)"
  using assms
  by (simp add: buildPayload_def Let_def no_dimension_keys_def map_of_set_opt
        map_of_resolve_dimension map_of_obj_set split: option.splits)

lemma buildPayload_legacy_width:
  assumes "no_dimension_keys m"
  shows "map_of (buildPayload_legacy input m) ''width'' =
           resolved_dimension (g_width input) None
             (''width'' \<in> set (requiredFields m)) (defaultWidth m)"
  using assms
  by (simp add: buildPayload_legacy_def Let_def no_dimension_keys_def map_of_set_opt
        map_of_dimension_or_default map_of_obj_set split: option.splits)

lemma buildPayload_legacy_height:
  assumes "no_dimension_keys m"
  shows "map_of (buildPayload_legacy input m) ''height'' =
           resolved_dimension (g_height input) None
             (''height'' \<in> set (requiredFields m)) (defaultHeight m)"
  using assms
  by (simp add: buildPayload_legacy_def Let_def no_dimension_keys_def map_of_set_opt
        map_of_dimension_or_default map_of_obj_set split: option.splits)

lemma catalog_no_dimension_keys: "no_dimension_keys (KREA_IMAGE_MODELS k)"
  by (cases k) (simp_all add: no_dimension_keys_def plain_model_def sized_model_def)

lemma digits1_digits: "digits1 ds \<Longrightarrow> ds \<noteq> [] \<and> (\<forall>c \<in> set ds. isDigit c)"
  by (cases ds) (auto simp: digits1_def isDigit_def list_all_iff)

lemma parseSize_matches:
  assumes "digits1 a" "digits1 b"
  shows "parseSize (Some (a @ ''x'' @ b)) = Some (Number_of_digits a, Number_of_digits b)"
proof -
  have not_digit: "\<not> isDigit CHR ''x''" by (simp add: isDigit_def)
  have all: "\<forall>c \<in> set a. isDigit c" "a \<noteq> []" using digits1_digits [OF assms(1)] by simp_all
  have "takeWhile isDigit (a @ CHR ''x'' # b) = a"
    using all(1) not_digit by (simp add: takeWhile_append2)
  moreover have "dropWhile isDigit (a @ CHR ''x'' # b) = CHR ''x'' # b"
    using all(1) not_digit by (simp add: dropWhile_append2)
  ultimately show ?thesis
    using assms all(2) by (simp add: parseSize_def Let_def)
qed

lemma parseSize_only_matches:
  assumes "parseSize sz = Some (w, h)"
  shows "\<exists>a b. sz = Some (a @ ''x'' @ b) \<and> digits1 a \<and> digits1 b
               \<and> w = Number_of_digits a \<and> h = Number_of_digits b"
proof -
  from assms obtain s where s: "sz = Some s" by (cases sz) (simp_all add: parseSize_def)
  let ?a = "takeWhile isDigit s"
  from assms s obtain b where rest: "dropWhile isDigit s = CHR ''x'' # b"
    and ok: "digits1 ?a" "digits1 b"
    and nums: "w = Number_of_digits ?a" "h = Number_of_digits b"
    by (auto simp: parseSize_def Let_def split: if_splits list.splits)
  have "s = ?a @ dropWhile isDigit s" by simp
  with rest have "s = ?a @ ''x'' @ b" by simp
  with s ok nums show ?thesis by blast
qed

lemma bit_length_bound: "n < 2 ^ k \<Longrightarrow> bit_length n \<le> k"
proof (induction k arbitrary: n)
  case 0
  then show ?case by (simp add: bit_length.simps)
next
  case (Suc k)
  then have "n div 2 < 2 ^ k" by simp
  from Suc.IH [OF this] show ?case by (subst bit_length.simps) simp
qed

lemma nearest_double_exact: "n < 2 ^ 53 \<Longrightarrow> nearest_double n = Some n"
proof -
  assume small: "n < 2 ^ 53"
  then have "bit_length n - 53 = 0" using bit_length_bound [of n 53] by simp
  moreover have "n < 2 ^ 1024"
    using small power_strict_increasing [of 53 1024 "2 :: nat"] by simp
  ultimately show ?thesis by (simp add: nearest_double_def)
qed

lemma Number_of_digits_exact:
  "nat_of_digits ds < 2 ^ 53 \<Longrightarrow> Number_of_digits ds = JInt (int (nat_of_digits ds))"
  by (simp add: Number_of_digits_def nearest_double_exact JInt_def)

lemma nat_of_digits_examples:
  "nat_of_digits ''512'' = 512" "nat_of_digits ''768'' = 768"
  by (simp_all add: nat_of_digits_def digit_val_def)

lemma parseSize_example: "parseSize (Some ''512x768'') = Some (JInt 512, JInt 768)"
  using parseSize_matches [of "''512''" "''768''"]
  by (simp add: digits1_def isDigit_def Number_of_digits_exact nat_of_digits_examples)

lemma bit_length_eq: "2 ^ k \<le> n \<Longrightarrow> n < 2 ^ Suc k \<Longrightarrow> bit_length n = Suc k"
proof (induction k arbitrary: n)
  case 0
  then have "n = 1" by simp
  then show ?case by (simp add: bit_length.simps)
next
  case (Suc k)
  then have "2 ^ k \<le> n div 2" "n div 2 < 2 ^ Suc k" by simp_all
  from Suc.IH [OF this] Suc.prems show ?case by (subst bit_length.simps) auto
qed

lemma nat_of_digits_big: "nat_of_digits ''9007199254740993'' = 9007199254740993"
  by (simp add: nat_of_digits_def digit_val_def)

lemma Number_rounds: "Number_of_digits ''9007199254740993'' = JInt 9007199254740992"
proof -
  have "bit_length 9007199254740993 = 54"
    using bit_length_eq [of 53 9007199254740993] by simp
  then show ?thesis
    by (simp add: Number_of_digits_def nat_of_digits_big nearest_double_def Let_def JInt_def)
qed

lemma legacy_forwards_size:
  "g_size input = Some s \<Longrightarrow> map_of (buildPayload_legacy input m) ''size'' = Some (JStr s)"
  by (simp add: buildPayload_legacy_def map_of_set_opt map_of_obj_set split: option.splits)

lemma current_drops_size: "map_of (buildPayload input (KREA_IMAGE_MODELS k)) ''size'' = None"
  by (cases k)
     (simp_all add: buildPayload_def Let_def map_of_set_opt map_of_resolve_dimension
        map_of_obj_set plain_model_def sized_model_def split: option.splits)

text \<open>
  The earlier copy of the builder does not read the size string: for a model that requires
  \<open>width\<close> with default 1024, the input \<open>{prompt: "x", size: "512x768"}\<close> gets width 1024,
  not the 512 of the size string, which goes into the payload unchanged.
\<close>

theorem legacy_size_counterexample:
  "map_option fst (parseSize (g_size (generate_example\<lparr>g_size := Some ''512x768''\<rparr>)))
     = Some (JInt 512)
   \<and> map_of (buildPayload_legacy (generate_example\<lparr>g_size := Some ''512x768''\<rparr>)
               (KREA_IMAGE_MODELS flux_1_1_pro)) ''width'' = Some (JInt 1024)
   \<and> map_of (buildPayload_legacy (generate_example\<lparr>g_size := Some ''512x768''\<rparr>)
               (KREA_IMAGE_MODELS flux_1_1_pro)) ''width'' \<noteq> Some (JInt 512)
   \<and> map_of (buildPayload_legacy (generate_example\<lparr>g_size := Some ''512x768''\<rparr>)
               (KREA_IMAGE_MODELS flux_1_1_pro)) ''size'' = Some (JStr ''512x768'')"
  by (simp add: parseSize_example generate_example_def buildPayload_legacy_def sized_model_def
        map_of_set_opt map_of_dimension_or_default map_of_obj_set resolved_dimension_def
        JInt_def)

text \<open>
  C2, amended. In the generate builder of the server that has both tools, for every input
  and every model whose fixed payload sets neither \<open>width\<close> nor \<open>height\<close> (every model of
  the catalog), the width of the payload is the explicit input width if present, else the
  width parsed from a size string matching \<open>^[1-9][0-9]*x[1-9][0-9]*$\<close>, else the default
  of the model when \<open>width\<close> is in its required fields, and otherwise the payload has no
  width; the same holds for the height, each axis by itself. The parsed width is what
  \<open>Number\<close> makes of the digits before the \<open>x\<close>, the parsed height what it makes of the
  digits after it: the number the digits denote when that is below \<open>2^53\<close>, the nearest
  double beyond (\<open>9007199254740993\<close> becomes \<open>9007199254740992\<close>). That builder puts no
  \<open>size\<close> into the payload of a catalog model. The earlier copy of the builder has no size
  step: explicit value, else the default when the field is required; a size string it is
  given goes into the payload unchanged, under \<open>size\<close>.
\<close>

theorem generate_dimension_precedence:
  "(no_dimension_keys m \<longrightarrow>
      map_of (buildPayload input m) ''width'' =
        resolved_dimension (g_width input)
          (map_option fst (parseSize (g_size input)))
          (''width'' \<in> set (requiredFields m)) (defaultWidth m)
      \<and> map_of (buildPayload input m) ''height'' =
        resolved_dimension (g_height input)
          (map_option snd (parseSize (g_size input)))
          (''height'' \<in> set (requiredFields m)) (defaultHeight m)
      \<and> map_of (buildPayload_legacy input m) ''width'' =
        resolved_dimension (g_width input) None
          (''width'' \<in> set (requiredFields m)) (defaultWidth m)
      \<and> map_of (buildPayload_legacy input m) ''height'' =
        resolved_dimension (g_height input) None
          (''height'' \<in> set (requiredFields m)) (defaultHeight m))
   \<and> no_dimension_keys (KREA_IMAGE_MODELS k)
   \<and> ((parseSize sz = Some (w, h)) =
        (\<exists>a b. sz = Some (a @ ''x'' @ b) \<and> digits1 a \<and> digits1 b
               \<and> w = Number_of_digits a \<and> h = Number_of_digits b))
   \<and> (nat_of_digits ds < 2 ^ 53 \<longrightarrow> Number_of_digits ds = JInt (int (nat_of_digits ds)))
   \<and> Number_of_digits ''9007199254740993'' = JInt 9007199254740992
   \<and> map_of (buildPayload input (KREA_IMAGE_MODELS k)) ''size'' = None
   \<and> (g_size input = Some s \<longrightarrow>
        map_of (buildPayload_legacy input m) ''size'' = Some (JStr s))"
proof (intro conjI impI)
  show "(parseSize sz = Some (w, h)) =
        (\<exists>a b. sz = Some (a @ ''x'' @ b) \<and> digits1 a \<and> digits1 b
               \<and> w = Number_of_digits a \<and> h = Number_of_digits b)"
    using parseSize_only_matches [of sz w h] parseSize_matches by auto
qed (simp_all add: buildPayload_width buildPayload_height buildPayload_legacy_width
       buildPayload_legacy_height catalog_no_dimension_keys Number_of_digits_exact
       Number_rounds current_drops_size legacy_forwards_size)

theorem generate_dimension_precedence_witness:
  "no_dimension_keys (KREA_IMAGE_MODELS flux_1_1_pro)
   \<and> map_of (buildPayload (generate_example\<lparr>g_width := Some 512\<rparr>) (KREA_IMAGE_MODELS flux_1_1_pro))
        ''width'' = Some (JInt 512)
   \<and> map_of (buildPayload (generate_example\<lparr>g_width := Some 512\<rparr>) (KREA_IMAGE_MODELS flux_1_1_pro))
        ''height'' = Some (JInt 1024)
   \<and> map_of (buildPayload (generate_example\<lparr>g_size := Some ''512x768''\<rparr>)
               (KREA_IMAGE_MODELS flux_1_1_pro)) ''width'' = Some (JInt 512)
   \<and> map_of (buildPayload (generate_example\<lparr>g_height := Some 300, g_size := Some ''512x768''\<rparr>)
               (KREA_IMAGE_MODELS flux_1_1_pro)) ''height'' = Some (JInt 300)
   \<and> map_of (buildPayload (generate_example\<lparr>g_model := flux_1_dev\<rparr>) (KREA_IMAGE_MODELS flux_1_dev))
        ''width'' = None
   \<and> map_of (buildPayload (generate_example\<lparr>g_size := Some ''9007199254740993x1''\<rparr>)
               (KREA_IMAGE_MODELS flux_1_1_pro)) ''width'' = Some (JInt 9007199254740992)
   \<and> nat_of_digits ''512'' < 2 ^ 53 \<and> Number_of_digits ''512'' = JInt 512
   \<and> map_of (buildPayload_legacy (generate_example\<lparr>g_size := Some ''512x768''\<rparr>)
               (KREA_IMAGE_MODELS flux_1_1_pro)) ''size'' = Some (JStr ''512x768'')"
proof -
  let ?m = "KREA_IMAGE_MODELS flux_1_1_pro"
  have m: "no_dimension_keys ?m"
    using generate_dimension_precedence [of ?m generate_example flux_1_1_pro] by blast
  have plain: "no_dimension_keys (KREA_IMAGE_MODELS flux_1_dev)"
    using generate_dimension_precedence [of ?m generate_example flux_1_dev] by blast
  have a: "map_of (buildPayload (generate_example\<lparr>g_width := Some 512\<rparr>) ?m) ''width''
             = Some (JInt 512)
           \<and> map_of (buildPayload (generate_example\<lparr>g_width := Some 512\<rparr>) ?m) ''height''
             = Some (JInt 1024)"
    using m generate_dimension_precedence [of ?m "generate_example\<lparr>g_width := Some 512\<rparr>"]
    by (simp add: resolved_dimension_def generate_example_def parseSize_def sized_model_def)
  have b: "map_of (buildPayload (generate_example\<lparr>g_size := Some ''512x768''\<rparr>) ?m) ''width''
             = Some (JInt 512)"
    using m generate_dimension_precedence [of ?m "generate_example\<lparr>g_size := Some ''512x768''\<rparr>"]
    by (simp add: resolved_dimension_def generate_example_def parseSize_example sized_model_def)
  have c: "map_of (buildPayload (generate_example\<lparr>g_height := Some 300, g_size := Some ''512x768''\<rparr>)
                     ?m) ''height'' = Some (JInt 300)"
    using m generate_dimension_precedence
      [of ?m "generate_example\<lparr>g_height := Some 300, g_size := Some ''512x768''\<rparr>"]
    by (simp add: resolved_dimension_def generate_example_def sized_model_def)
  have d: "map_of (buildPayload (generate_example\<lparr>g_model := flux_1_dev\<rparr>)
                     (KREA_IMAGE_MODELS flux_1_dev)) ''width'' = None"
    using plain generate_dimension_precedence
      [of "KREA_IMAGE_MODELS flux_1_dev" "generate_example\<lparr>g_model := flux_1_dev\<rparr>"]
    by (simp add: resolved_dimension_def generate_example_def parseSize_def plain_model_def)
  have split: "Some ''9007199254740993x1'' = Some (''9007199254740993'' @ ''x'' @ ''1'')
               \<and> digits1 ''9007199254740993'' \<and> digits1 ''1''"
    by (simp add: digits1_def isDigit_def)
  have big: "parseSize (Some ''9007199254740993x1'')
               = Some (Number_of_digits ''9007199254740993'', Number_of_digits ''1'')"
    using split generate_dimension_precedence
      [where sz = "Some ''9007199254740993x1''" and w = "Number_of_digits ''9007199254740993''"
         and h = "Number_of_digits ''1''"]
    by blast
  have rounded: "Number_of_digits ''9007199254740993'' = JInt 9007199254740992"
    using generate_dimension_precedence by blast
  have e: "map_of (buildPayload (generate_example\<lparr>g_size := Some ''9007199254740993x1''\<rparr>) ?m)
             ''width'' = Some (JInt 9007199254740992)"
  proof -
    let ?g = "generate_example\<lparr>g_size := Some ''9007199254740993x1''\<rparr>"
    have "map_of (buildPayload ?g ?m) ''width'' =
            resolved_dimension (g_width ?g) (map_option fst (parseSize (g_size ?g)))
              (''width'' \<in> set (requiredFields ?m)) (defaultWidth ?m)"
      using m generate_dimension_precedence [of ?m ?g] by blast
    also have "\<dots> = Some (JInt 9007199254740992)"
      using big rounded by (simp add: resolved_dimension_def generate_example_def)
    finally show ?thesis .
  qed
  have small: "nat_of_digits ''512'' < 2 ^ 53"
    by (simp add: nat_of_digits_examples)
  have f: "Number_of_digits ''512'' = JInt 512"
    using small generate_dimension_precedence [where ds = "''512''"]
    by (simp add: nat_of_digits_examples)
  have g: "map_of (buildPayload_legacy (generate_example\<lparr>g_size := Some ''512x768''\<rparr>) ?m)
             ''size'' = Some (JStr ''512x768'')"
    using generate_dimension_precedence
      [where input = "generate_example\<lparr>g_size := Some ''512x768''\<rparr>" and m = ?m
         and s = "''512x768''"]
    by (simp add: generate_example_def)
  from m a b c d e small f g show ?thesis by blast
qed

subsection \<open>Reading a response never throws\<close>

lemma is_object_cases: "is_object v \<Longrightarrow> (\<exists>items. v = JArr items) \<or> (\<exists>kvs. v = JObj kvs)"
  by (cases v) (simp_all add: is_object_def truthy_def typeof_def)

lemma js_get_object: "is_object v \<Longrightarrow> \<exists>x. js_get v key = Inr x"
  by (auto dest!: is_object_cases simp: js_get_def)

lemma pickJob_total: "\<exists>j. pickJob raw = Inr j"
proof (cases "is_object raw")
  case True
  then obtain x where "js_get raw ''job'' = Inr x" using js_get_object by blast
  with True show ?thesis by (simp add: pickJob_def)
next
  case False
  then show ?thesis by (simp add: pickJob_def)
qed

lemma readUnknown_total: "\<exists>v. readUnknown obj path = Inr v"
proof (induction path arbitrary: obj)
  case Nil
  show ?case by simp
next
  case (Cons key path)
  show ?case
  proof (cases "is_object obj")
    case True
    then obtain x where "js_get obj key = Inr x" using js_get_object by blast
    with True Cons [of x] show ?thesis by (simp add: is_object_def)
  next
    case False
    then show ?thesis by (auto simp: is_object_def)
  qed
qed

lemma readString_total: "\<exists>s. readString obj path = Inr s"
  using readUnknown_total [of obj path] by (auto simp: readString_def)

lemma read_job_id_total: "\<exists>s. read_job_id j keys = Inr s"
proof (induction j keys rule: read_job_id.induct)
  case (3 createJob key k' keys)
  obtain s where s: "readString createJob [key] = Inr s" using readString_total by blast
  with 3 show ?case by (cases s) auto
qed (simp_all add: readString_total)

lemma readUnknown_empty_object: "readUnknown (JObj []) (key # path) = Inr JUndefined"
  by (cases path) (simp_all add: truthy_def typeof_def js_get_def)

lemma readString_empty_object: "readString (JObj []) [key] = Inr None"
  by (simp add: readString_def readUnknown_empty_object del: readUnknown.simps)

lemma read_job_id_empty_object: "read_job_id (JObj []) keys = Inr None"
  by (induction "JObj []" keys rule: read_job_id.induct) (simp_all add: readString_empty_object)

lemma pickJob_not_object: "\<not> is_object raw \<Longrightarrow> pickJob raw = Inr (JObj [])"
  by (simp add: pickJob_def)

lemma after_create_no_id:
  assumes "pickJob raw = Inr j" "read_job_id j (id_keys cv) = Inr None"
  shows "after_create P E cv client label title_lines created p wait pollIntervalMs timeoutMs
           raw w = Some (Inl (missing_job_id P cv raw), w)"
  using assms by (simp add: after_create_def)

lemma after_create_not_object:
  assumes "\<not> is_object raw"
  shows "after_create P E cv client label title_lines created p wait pollIntervalMs timeoutMs
           raw w = Some (Inl (missing_job_id P cv raw), w)"
  using assms by (simp add: after_create_no_id pickJob_not_object read_job_id_empty_object)

subsection \<open>The poller\<close>





lemma pickJob_plain:
  "map_of kvs ''job'' = None \<Longrightarrow> pickJob (JObj kvs) = Inr (JObj kvs)"
  by (simp add: pickJob_def is_object_def truthy_def typeof_def js_get_def)

lemma readString_field:
  "readString (JObj kvs) [key] =
     Inr (case map_of kvs key of Some (JStr s) \<Rightarrow> Some s | _ \<Rightarrow> None)"
  by (simp add: readString_def truthy_def typeof_def js_get_def split: option.splits jsval.splits)



subsection \<open>The tools up to the creating request\<close>

lemma missing_for_ignores_polling:
  "missing_for (input\<lparr>g_wait_for_completion := a, g_poll_interval_ms := b, g_timeout_ms := c\<rparr>) m
   = missing_for input m"
  by (simp add: missing_for_def fun_eq_iff)

lemma validate_ignores_polling:
  "validateInputByModel
     (input\<lparr>g_wait_for_completion := a, g_poll_interval_ms := b, g_timeout_ms := c\<rparr>) m
   = validateInputByModel input m"
  by (simp add: validateInputByModel_def missing_for_ignores_polling)

lemma buildPayload_ignores_polling:
  "buildPayload (input\<lparr>g_wait_for_completion := a, g_poll_interval_ms := b, g_timeout_ms := c\<rparr>) m
   = buildPayload input m"
  by (simp add: buildPayload_def Let_def cong: if_cong)



lemma generate_tool_no_id:
  assumes "validateInputByModel input (KREA_IMAGE_MODELS (g_model input)) = Inr ()"
    and "fromEnv E = Inr client"
    and "generateImage P E client (endpoint (KREA_IMAGE_MODELS (g_model input)))
           (buildPayload input (KREA_IMAGE_MODELS (g_model input))) w = (Inr raw, w1)"
    and "pickJob raw = Inr j" "read_job_id j (id_keys current_conventions) = Inr None"
  shows "krea_generate_image P E input w =
           Some (Inl (missing_job_id P current_conventions raw), w1)"
  using assms
  by (simp add: krea_generate_image_def Let_def validate_ignores_polling
        buildPayload_ignores_polling after_create_no_id)


lemma upscale_tool_no_id:
  assumes "buildUpscaleRequest input = Inr r"
    and "fromEnv E = Inr client"
    and "generateImage P E client (req_endpoint r) (req_payload r) w = (Inr raw, w1)"
    and "pickJob raw = Inr j" "read_job_id j (id_keys current_conventions) = Inr None"
  shows "krea_upscale_image P E input w =
           Some (Inl (missing_job_id P current_conventions raw), w1)"
  using assms builder_ignores_polling
  by (simp add: krea_upscale_image_def Let_def effective_mode_def after_create_no_id)

lemma scripted_create:
  "generateImage P (scripted_env ((200, text_body) # rest)) client ep p world0 =
     (Inr (parse_body P text_body),
      world0\<lparr>clock := 5,
             sent := [request_of client ep ''POST'' (Some (JSON_stringify P (JObj p)))]\<rparr>)"
  by (simp add: generateImage_def request_def fetch_def scripted_env_def world0_def ok_def)

lemma scripted_fromEnv:
  "fromEnv (scripted_env replies) = Inr (new_KreaClient ''key'' (Some DEFAULT_BASE_URL))"
  by (simp add: fromEnv_def scripted_env_def)

lemma example_validates:
  "validateInputByModel generate_example (KREA_IMAGE_MODELS (g_model generate_example)) = Inr ()"
  by (simp add: validateInputByModel_def generate_example_def sized_model_def missing_for_def)

lemma is_object_iff: "is_object v = ((\<exists>items. v = JArr items) \<or> (\<exists>kvs. v = JObj kvs))"
  by (cases v) (simp_all add: is_object_def truthy_def typeof_def)

lemma array_has_no_key:
  "key \<noteq> ''length'' \<Longrightarrow> \<not> list_all isDigit key \<Longrightarrow> js_get (JArr items) key = Inr JUndefined"
  by (simp add: js_get_def array_index_def)

lemma pickJob_array: "pickJob (JArr items) = Inr (JArr items)"
  by (simp add: pickJob_def is_object_def truthy_def typeof_def array_has_no_key isDigit_def)

lemma read_job_id_array: "read_job_id (JArr items) (id_keys current_conventions) = Inr None"
  by (simp add: current_conventions_def readString_def truthy_def typeof_def array_has_no_key
        isDigit_def)

lemma job_status_empty: "job_status (JObj []) = ''unknown''"
  by (simp add: job_status_def readString_empty_object normalizeStatus_def js_of_opt_def)

text \<open>
  C9. A response that is not an object (\<open>undefined\<close>, \<open>null\<close>, a boolean, a number, a bare
  string) makes \<open>pickJob\<close> return the empty record. Its \<open>id\<close>, \<open>job_id\<close> and \<open>status\<close>
  read as undefined, its status normalizes to \<open>unknown\<close>, and what follows the creating
  request fails with the missing-job-id error, in both tools. An array is an object to
  JavaScript: \<open>pickJob\<close> returns it as it is, and the same error follows. No read of the
  response path throws: \<open>pickJob\<close>, \<open>readUnknown\<close> and \<open>readString\<close> return a value on
  every input, never the \<open>TypeError\<close> of a property read on \<open>undefined\<close> or \<open>null\<close>.
\<close>

theorem non_object_response_missing_job_id:
  "(\<not> is_object raw \<longrightarrow>
      pickJob raw = Inr (JObj [])
      \<and> readString (JObj []) [''id''] = Inr None
      \<and> readString (JObj []) [''job_id''] = Inr None
      \<and> readString (JObj []) [''status''] = Inr None
      \<and> job_status (JObj []) = ''unknown''
      \<and> after_create P E cv client label title_lines created p wait pollIntervalMs timeoutMs
           raw w = Some (Inl (missing_job_id P cv raw), w)
      \<and> (validateInputByModel g (KREA_IMAGE_MODELS (g_model g)) = Inr ()
           \<and> fromEnv E = Inr client
           \<and> generateImage P E client (endpoint (KREA_IMAGE_MODELS (g_model g)))
                (buildPayload g (KREA_IMAGE_MODELS (g_model g))) w = (Inr raw, w1)
         \<longrightarrow> krea_generate_image P E g w
               = Some (Inl (missing_job_id P current_conventions raw), w1))
      \<and> (buildUpscaleRequest u = Inr r
           \<and> fromEnv E = Inr client
           \<and> generateImage P E client (req_endpoint r) (req_payload r) w = (Inr raw, w1)
         \<longrightarrow> krea_upscale_image P E u w
               = Some (Inl (missing_job_id P current_conventions raw), w1)))
   \<and> is_object raw = ((\<exists>items. raw = JArr items) \<or> (\<exists>kvs. raw = JObj kvs))
   \<and> pickJob (JArr items) = Inr (JArr items)
   \<and> after_create P E current_conventions client label title_lines created p wait pollIntervalMs
        timeoutMs (JArr items) w
       = Some (Inl (missing_job_id P current_conventions (JArr items)), w)
   \<and> (\<exists>j. pickJob raw = Inr j)
   \<and> (\<exists>v. readUnknown obj path = Inr v)
   \<and> (\<exists>s. readString obj path = Inr s)"
  using pickJob_total [of raw] readUnknown_total [of obj path] readString_total [of obj path]
    is_object_iff [of raw] pickJob_array [of items]
    after_create_no_id [OF pickJob_array read_job_id_array]
  by (auto simp: pickJob_not_object readString_empty_object job_status_empty
        after_create_not_object read_job_id_empty_object
        intro!: generate_tool_no_id upscale_tool_no_id)

theorem non_object_response_missing_job_id_witness:
  "\<not> is_object (JStr ''Bad Gateway'')
   \<and> pickJob (JStr ''Bad Gateway'') = Inr (JObj [])
   \<and> map_option fst (krea_generate_image test_platform (scripted_env [(200, ''Bad Gateway'')])
                        generate_example world0)
       = Some (Inl (Error ''Krea response does not include job id. Response: Bad Gateway''))"
proof -
  let ?raw = "JStr ''Bad Gateway''"
  let ?E = "scripted_env [(200, ''Bad Gateway'')]"
  let ?m = "KREA_IMAGE_MODELS (g_model generate_example)"
  let ?client = "new_KreaClient ''key'' (Some DEFAULT_BASE_URL)"
  let ?w1 = "world0\<lparr>clock := 5,
               sent := [request_of ?client (endpoint ?m) ''POST''
                          (Some (JSON_stringify test_platform
                                   (JObj (buildPayload generate_example ?m))))]\<rparr>"
  have not_obj: "\<not> is_object ?raw" by (simp add: is_object_def typeof_def)
  have parsed: "parse_body test_platform ''Bad Gateway'' = ?raw"
    by (simp add: parse_body_def trim_not_blank trim_space white_space_def test_platform_def json_table_def)
  have created: "generateImage test_platform ?E ?client (endpoint ?m)
                   (buildPayload generate_example ?m) world0 = (Inr ?raw, ?w1)"
    using scripted_create [of test_platform "''Bad Gateway''" "[]"] parsed by simp
  have "pickJob ?raw = Inr (JObj [])
        \<and> krea_generate_image test_platform ?E generate_example world0
            = Some (Inl (missing_job_id test_platform current_conventions ?raw), ?w1)"
    using non_object_response_missing_job_id
      [where raw = ?raw and P = test_platform and E = ?E and g = generate_example
         and client = ?client and w = world0 and ?w1.0 = ?w1]
      not_obj example_validates scripted_fromEnv created
    by blast
  with not_obj show ?thesis
    by (simp add: missing_job_id_def current_conventions_def stringifyUnknown_def template_def)
qed
















subsection \<open>The poller: claims\<close>

lemma job_status_not_object: "\<not> is_object j \<Longrightarrow> job_status j = ''unknown''"
  by (auto simp: job_status_def readString_def is_object_def normalizeStatus_def js_of_opt_def)

lemma terminal_is_object:
  assumes "isTerminalStatus (job_status (case asObject initial of Some v \<Rightarrow> v | None \<Rightarrow> JObj []))"
  shows "is_object initial"
proof (rule ccontr)
  assume "\<not> is_object initial"
  then have "asObject initial = None" by (simp add: asObject_def)
  with assms show False by (simp add: job_status_empty isTerminalStatus_def)
qed

lemma wait_terminal:
  assumes "isTerminalStatus (job_status (case asObject initial of Some v \<Rightarrow> v | None \<Rightarrow> JObj []))"
  shows "waitForJobCompletion P E c jobId initial p t w =
           Some (Inr \<lparr>job = initial, rawResponse = JObj [(''job'', initial)]\<rparr>, w)"
proof -
  have obj: "asObject initial = Some initial"
    using terminal_is_object [OF assms] by (simp add: asObject_def)
  obtain st where st: "readString initial [''status''] = Inr st"
    using readString_total by blast
  with assms obj show ?thesis
    by (simp add: waitForJobCompletion_def job_status_def)
qed


lemma after_create_terminal:
  assumes "pickJob raw = Inr j" "read_job_id j (id_keys cv) = Inr (Some jobId)" "jobId \<noteq> []"
    and "isTerminalStatus (job_status j)"
  shows "\<exists>res. after_create P E cv client label title_lines created p True pollIntervalMs
                 timeoutMs raw w = Some (Inr res, w)"
proof -
  have "isTerminalStatus (job_status (case asObject j of Some v \<Rightarrow> v | None \<Rightarrow> JObj []))"
    using assms(4) job_status_not_object [of j]
    by (cases "is_object j") (auto simp: asObject_def isTerminalStatus_def)
  then have finished: "waitForJobCompletion P E client jobId j pollIntervalMs timeoutMs w =
           Some (Inr \<lparr>job = j, rawResponse = JObj [(''job'', j)]\<rparr>, w)"
    by (rule wait_terminal)
  obtain res where "readUnknown j (result_path cv) = Inr res" using readUnknown_total by blast
  moreover obtain st where "readString j [''status''] = Inr st" using readString_total by blast
  moreover obtain err where "readUnknown j [''error''] = Inr err" using readUnknown_total by blast
  ultimately show ?thesis
    using assms(1-3) finished by (simp add: after_create_def Let_def del: readUnknown.simps)
qed

text \<open>
  C4. When the status of the job record returned at creation time normalizes to
  \<open>completed\<close>, \<open>failed\<close> or \<open>cancelled\<close>, the poller returns that record at once, with the
  world as it was: no request for the job is sent and no sleep is taken. The same holds in
  a tool that waits for completion: with a terminal job in the creating response it
  returns its result with the world as the creating request left it.
\<close>

theorem terminal_initial_job_returns_at_once:
  "(isTerminalStatus (job_status (case asObject initial of Some v \<Rightarrow> v | None \<Rightarrow> JObj []))
      \<longrightarrow> is_object initial
          \<and> waitForJobCompletion P E c jobId initial p t w =
              Some (Inr \<lparr>job = initial, rawResponse = JObj [(''job'', initial)]\<rparr>, w))
   \<and> (pickJob raw = Inr j \<and> read_job_id j (id_keys cv) = Inr (Some jobId) \<and> jobId \<noteq> []
        \<and> isTerminalStatus (job_status j)
      \<longrightarrow> (\<exists>res. after_create P E cv client label title_lines created pl True p t raw w
                  = Some (Inr res, w)))
   \<and> isTerminalStatus s = (s = ''completed'' \<or> s = ''failed'' \<or> s = ''cancelled'')"
  using terminal_is_object [of initial] wait_terminal [of initial P E c jobId p t w]
    after_create_terminal [of raw j cv jobId P E client label title_lines created pl p t w]
  by (auto simp: isTerminalStatus_def)

theorem terminal_initial_job_returns_at_once_witness:
  "isTerminalStatus (job_status
      (case asObject (JObj [(''id'', JStr ''j1''), (''status'', JStr ''Completed'')]) of
         Some v \<Rightarrow> v | None \<Rightarrow> JObj []))
   \<and> waitForJobCompletion test_platform (scripted_env []) (new_KreaClient ''k'' None) ''j1''
        (JObj [(''id'', JStr ''j1''), (''status'', JStr ''Completed'')]) 2000 180000 world0
       = Some (Inr \<lparr>job = JObj [(''id'', JStr ''j1''), (''status'', JStr ''Completed'')],
                    rawResponse =
                      JObj [(''job'', JObj [(''id'', JStr ''j1''), (''status'', JStr ''Completed'')])]\<rparr>,
               world0)
   \<and> sent world0 = []
   \<and> (\<exists>res. after_create test_platform (scripted_env []) current_conventions
                (new_KreaClient ''k'' None) [] [] ''Job '' [] True 2000 180000
                (JObj [(''id'', JStr ''j1''), (''status'', JStr ''Completed'')]) world0
              = Some (Inr res, world0))"
proof -
  let ?j = "JObj [(''id'', JStr ''j1''), (''status'', JStr ''Completed'')]"
  have status: "job_status ?j = ''completed''"
    by (simp add: job_status_def readString_field normalizeStatus_def js_of_opt_def
          toLowerCase_def)
  have terminal: "isTerminalStatus (job_status (case asObject ?j of Some v \<Rightarrow> v | None \<Rightarrow> JObj []))"
    using status
    by (simp add: asObject_def is_object_def truthy_def typeof_def isTerminalStatus_def)
  note claim = terminal_initial_job_returns_at_once
    [where initial = ?j and P = test_platform and E = "scripted_env []"
       and c = "new_KreaClient ''k'' None" and jobId = "''j1''" and p = 2000 and t = 180000
       and w = world0 and raw = ?j and j = ?j and cv = current_conventions
       and client = "new_KreaClient ''k'' None" and label = "[]" and title_lines = "[]"
       and created = "''Job ''" and pl = "[]"]
  have picked: "pickJob ?j = Inr ?j" by (simp add: pickJob_plain)
  have found: "read_job_id ?j (id_keys current_conventions) = Inr (Some ''j1'')"
    by (simp add: current_conventions_def readString_field)
  have tool: "\<exists>res. after_create test_platform (scripted_env []) current_conventions
                (new_KreaClient ''k'' None) [] [] ''Job '' [] True 2000 180000 ?j world0
              = Some (Inr res, world0)"
    using claim picked found status by (simp add: isTerminalStatus_def)
  from claim terminal tool show ?thesis by (simp add: world0_def)
qed



end
